theory Spec2Isabelle
  imports Main "HOL-Library.Word"
begin

section \<open>Machine types and header constants\<close>

text \<open>
  \<open>Loader.cpp\<close> talks to three collaborators: the file system (\<open>std::ifstream\<close>), the
  windowing library (GLFW, GLEW) and the graphics driver (OpenGL).  The integer types of
  the graphics headers are 32 bits wide: \<open>GLenum\<close> and \<open>GLuint\<close> are unsigned, \<open>GLint\<close>
  and \<open>GLsizei\<close> are signed and are read with \<open>sint\<close>.  A \<open>GLFWwindow*\<close> is an address,
  \<open>0\<close> being \<open>nullptr\<close>.
\<close>

type_synonym GLenum = "32 word"
type_synonym GLuint = "32 word"
type_synonym GLint = "32 word"
type_synonym GLsizei = "32 word"
type_synonym window_ptr = nat

abbreviation GL_NO_ERROR :: GLenum where "GL_NO_ERROR \<equiv> 0"
abbreviation GL_INVALID_ENUM :: GLenum where "GL_INVALID_ENUM \<equiv> 0x0500"
abbreviation GL_INVALID_VALUE :: GLenum where "GL_INVALID_VALUE \<equiv> 0x0501"
abbreviation GL_INVALID_OPERATION :: GLenum where "GL_INVALID_OPERATION \<equiv> 0x0502"
abbreviation GL_STACK_OVERFLOW :: GLenum where "GL_STACK_OVERFLOW \<equiv> 0x0503"
abbreviation GL_STACK_UNDERFLOW :: GLenum where "GL_STACK_UNDERFLOW \<equiv> 0x0504"
abbreviation GL_OUT_OF_MEMORY :: GLenum where "GL_OUT_OF_MEMORY \<equiv> 0x0505"
abbreviation GL_INVALID_FRAMEBUFFER_OPERATION :: GLenum where
  "GL_INVALID_FRAMEBUFFER_OPERATION \<equiv> 0x0506"
abbreviation GL_FRAGMENT_SHADER :: GLenum where "GL_FRAGMENT_SHADER \<equiv> 0x8B30"
abbreviation GL_VERTEX_SHADER :: GLenum where "GL_VERTEX_SHADER \<equiv> 0x8B31"
abbreviation GL_COMPILE_STATUS :: GLenum where "GL_COMPILE_STATUS \<equiv> 0x8B81"
abbreviation GL_LINK_STATUS :: GLenum where "GL_LINK_STATUS \<equiv> 0x8B82"
abbreviation GL_INFO_LOG_LENGTH :: GLenum where "GL_INFO_LOG_LENGTH \<equiv> 0x8B84"
abbreviation GL_MAX_VERTEX_UNIFORM_VECTORS :: GLenum where
  "GL_MAX_VERTEX_UNIFORM_VECTORS \<equiv> 0x8DFB"
abbreviation GLEW_OK :: GLenum where "GLEW_OK \<equiv> 0"

text \<open>\<open>std::endl\<close> writes the line terminator (and flushes, which has no content).\<close>

abbreviation endl :: string where "endl \<equiv> [CHR 0x0A]"

text \<open>\<open>operator<<\<close> on an \<open>int\<close>: decimal digits, a minus sign for a negative value.\<close>

function show_nat :: "nat \<Rightarrow> string" where
  "show_nat n =
     (if n < 10 then [''0123456789'' ! n]
      else show_nat (n div 10) @ [''0123456789'' ! (n mod 10)])"
  by pat_completeness auto
termination
  by (relation "measure id") auto

definition show_int :: "int \<Rightarrow> string" where
  "show_int i = (if i < 0 then CHR ''-'' # show_nat (nat (- i)) else show_nat (nat i))"

section \<open>The platform and the process state\<close>

text \<open>
  Every call that leaves the program is recorded, with what it returned, in the order
  the program made it.  \<open>GlDeleteProgram\<close> belongs to the vocabulary of the driver
  although \<open>Loader.cpp\<close> never calls it.
\<close>

datatype event =
    FileOpen string bool
  | GlfwInit "32 word"
  | GlfwCreateWindow int int string window_ptr
  | GlfwMakeContextCurrent window_ptr
  | GlfwDestroyWindow window_ptr
  | GlfwTerminate
  | GlewInit GLenum
  | GlGetIntegerv GLenum GLint
  | GlGetError GLenum
  | GlCreateShader GLenum GLuint
  | GlShaderSource GLuint GLsizei "string list"
  | GlCompileShader GLuint
  | GlGetShaderiv GLuint GLenum GLint
  | GlGetShaderInfoLog GLuint GLsizei string
  | GlCreateProgram GLuint
  | GlAttachShader GLuint GLuint
  | GlLinkProgram GLuint
  | GlGetProgramiv GLuint GLenum GLint
  | GlGetProgramInfoLog GLuint GLsizei string
  | GlDeleteShader GLuint
  | GlDeleteProgram GLuint

text \<open>
  The collaborators are a parameter of the model: a deterministic machine over a state
  \<open>'w\<close> of its own, one transition per entry point.  An entry point with an out
  parameter returns the value the parameter holds after the call; \<open>open_impl\<close> returns
  the bytes the stream will deliver, or \<open>None\<close> when the file cannot be opened; the two
  info-log entry points return the C string left in the buffer.
\<close>

record 'w platform =
  open_impl :: "string \<Rightarrow> 'w \<Rightarrow> string option \<times> 'w"
  glfwInit_impl :: "'w \<Rightarrow> 32 word \<times> 'w"
  glfwCreateWindow_impl :: "int \<Rightarrow> int \<Rightarrow> string \<Rightarrow> 'w \<Rightarrow> window_ptr \<times> 'w"
  glfwMakeContextCurrent_impl :: "window_ptr \<Rightarrow> 'w \<Rightarrow> 'w"
  glfwDestroyWindow_impl :: "window_ptr \<Rightarrow> 'w \<Rightarrow> 'w"
  glfwTerminate_impl :: "'w \<Rightarrow> 'w"
  glewInit_impl :: "'w \<Rightarrow> GLenum \<times> 'w"
  glGetIntegerv_impl :: "GLenum \<Rightarrow> 'w \<Rightarrow> GLint \<times> 'w"
  glGetError_impl :: "'w \<Rightarrow> GLenum \<times> 'w"
  glCreateShader_impl :: "GLenum \<Rightarrow> 'w \<Rightarrow> GLuint \<times> 'w"
  glShaderSource_impl :: "GLuint \<Rightarrow> GLsizei \<Rightarrow> string list \<Rightarrow> 'w \<Rightarrow> 'w"
  glCompileShader_impl :: "GLuint \<Rightarrow> 'w \<Rightarrow> 'w"
  glGetShaderiv_impl :: "GLuint \<Rightarrow> GLenum \<Rightarrow> 'w \<Rightarrow> GLint \<times> 'w"
  glGetShaderInfoLog_impl :: "GLuint \<Rightarrow> GLsizei \<Rightarrow> 'w \<Rightarrow> string \<times> 'w"
  glCreateProgram_impl :: "'w \<Rightarrow> GLuint \<times> 'w"
  glAttachShader_impl :: "GLuint \<Rightarrow> GLuint \<Rightarrow> 'w \<Rightarrow> 'w"
  glLinkProgram_impl :: "GLuint \<Rightarrow> 'w \<Rightarrow> 'w"
  glGetProgramiv_impl :: "GLuint \<Rightarrow> GLenum \<Rightarrow> 'w \<Rightarrow> GLint \<times> 'w"
  glGetProgramInfoLog_impl :: "GLuint \<Rightarrow> GLsizei \<Rightarrow> 'w \<Rightarrow> string \<times> 'w"
  glDeleteShader_impl :: "GLuint \<Rightarrow> 'w \<Rightarrow> 'w"

text \<open>
  The process: the state of the collaborators, the calls made so far, and the bytes
  written to \<open>std::cout\<close> and \<open>std::cerr\<close>.
\<close>

record 'w proc =
  world :: 'w
  calls :: "event list"
  cout :: string
  cerr :: string

text \<open>
  How a piece of the program ends: it falls through with a value (\<open>Normal\<close>), \<open>main\<close>
  executes \<open>return c\<close> (\<open>Exit c\<close>), a failed \<open>assert\<close> calls \<open>abort()\<close> (\<open>Abort\<close>),
  or a signed addition overflows (\<open>Undefined\<close>).
\<close>

datatype 'a outcome = Normal 'a | Exit int | Abort | Undefined

type_synonym ('w, 'a) step = "'w proc \<Rightarrow> 'a outcome \<times> 'w proc"

definition seq :: "('w, 'a) step \<Rightarrow> ('a \<Rightarrow> ('w, 'b) step) \<Rightarrow> ('w, 'b) step" where
  "seq m f st =
     (case m st of
        (Normal a, st') \<Rightarrow> f a st'
      | (Exit c, st') \<Rightarrow> (Exit c, st')
      | (Abort, st') \<Rightarrow> (Abort, st')
      | (Undefined, st') \<Rightarrow> (Undefined, st'))"

definition return_val :: "'a \<Rightarrow> ('w, 'a) step" where
  "return_val a st = (Normal a, st)"

definition exit_main :: "int \<Rightarrow> ('w, 'a) step" where
  "exit_main c st = (Exit c, st)"

definition call :: "('w proc \<Rightarrow> 'a \<times> 'w proc) \<Rightarrow> ('w, 'a) step" where
  "call f st = (case f st of (a, st') \<Rightarrow> (Normal a, st'))"

definition exec :: "('w proc \<Rightarrow> 'w proc) \<Rightarrow> ('w, unit) step" where
  "exec g st = (Normal (), g st)"

definition invoke :: "('w \<Rightarrow> 'a \<times> 'w) \<Rightarrow> ('a \<Rightarrow> event) \<Rightarrow> 'w proc \<Rightarrow> 'a \<times> 'w proc" where
  "invoke f ev st =
     (case f (world st) of (a, w) \<Rightarrow> (a, st\<lparr>world := w, calls := calls st @ [ev a]\<rparr>))"

definition invoke_void :: "('w \<Rightarrow> 'w) \<Rightarrow> event \<Rightarrow> 'w proc \<Rightarrow> 'w proc" where
  "invoke_void f ev st = st\<lparr>world := f (world st), calls := calls st @ [ev]\<rparr>"

definition put_cout :: "string \<Rightarrow> 'w proc \<Rightarrow> 'w proc" where
  "put_cout s st = st\<lparr>cout := cout st @ s\<rparr>"

definition put_cerr :: "string \<Rightarrow> 'w proc \<Rightarrow> 'w proc" where
  "put_cerr s st = st\<lparr>cerr := cerr st @ s\<rparr>"

text \<open>\<open>int + int\<close>: undefined when the sum leaves the range of \<open>int\<close>.\<close>

definition signed_add :: "GLint \<Rightarrow> GLint \<Rightarrow> ('w, GLint) step" where
  "signed_add a b st =
     (if - (2 ^ 31) \<le> sint a + sint b \<and> sint a + sint b < 2 ^ 31 then (Normal (a + b), st)
      else (Undefined, st))"

subsection \<open>The entry points, as the program calls them\<close>

definition glfwInit :: "'w platform \<Rightarrow> 'w proc \<Rightarrow> 32 word \<times> 'w proc" where
  "glfwInit P = invoke (glfwInit_impl P) GlfwInit"

definition glfwCreateWindow ::
  "'w platform \<Rightarrow> int \<Rightarrow> int \<Rightarrow> string \<Rightarrow> 'w proc \<Rightarrow> window_ptr \<times> 'w proc" where
  "glfwCreateWindow P width height title =
     invoke (glfwCreateWindow_impl P width height title) (GlfwCreateWindow width height title)"

definition glfwMakeContextCurrent :: "'w platform \<Rightarrow> window_ptr \<Rightarrow> 'w proc \<Rightarrow> 'w proc" where
  "glfwMakeContextCurrent P window =
     invoke_void (glfwMakeContextCurrent_impl P window) (GlfwMakeContextCurrent window)"

definition glfwDestroyWindow :: "'w platform \<Rightarrow> window_ptr \<Rightarrow> 'w proc \<Rightarrow> 'w proc" where
  "glfwDestroyWindow P window =
     invoke_void (glfwDestroyWindow_impl P window) (GlfwDestroyWindow window)"

definition glfwTerminate :: "'w platform \<Rightarrow> 'w proc \<Rightarrow> 'w proc" where
  "glfwTerminate P = invoke_void (glfwTerminate_impl P) GlfwTerminate"

definition glewInit :: "'w platform \<Rightarrow> 'w proc \<Rightarrow> GLenum \<times> 'w proc" where
  "glewInit P = invoke (glewInit_impl P) GlewInit"

definition glGetIntegerv :: "'w platform \<Rightarrow> GLenum \<Rightarrow> 'w proc \<Rightarrow> GLint \<times> 'w proc" where
  "glGetIntegerv P pname = invoke (glGetIntegerv_impl P pname) (GlGetIntegerv pname)"

definition glGetError :: "'w platform \<Rightarrow> 'w proc \<Rightarrow> GLenum \<times> 'w proc" where
  "glGetError P = invoke (glGetError_impl P) GlGetError"

definition glCreateShader :: "'w platform \<Rightarrow> GLenum \<Rightarrow> 'w proc \<Rightarrow> GLuint \<times> 'w proc" where
  "glCreateShader P shaderType = invoke (glCreateShader_impl P shaderType) (GlCreateShader shaderType)"

definition glShaderSource ::
  "'w platform \<Rightarrow> GLuint \<Rightarrow> GLsizei \<Rightarrow> string list \<Rightarrow> 'w proc \<Rightarrow> 'w proc" where
  "glShaderSource P shader count strings =
     invoke_void (glShaderSource_impl P shader count strings) (GlShaderSource shader count strings)"

definition glCompileShader :: "'w platform \<Rightarrow> GLuint \<Rightarrow> 'w proc \<Rightarrow> 'w proc" where
  "glCompileShader P shader = invoke_void (glCompileShader_impl P shader) (GlCompileShader shader)"

definition glGetShaderiv ::
  "'w platform \<Rightarrow> GLuint \<Rightarrow> GLenum \<Rightarrow> 'w proc \<Rightarrow> GLint \<times> 'w proc" where
  "glGetShaderiv P shader pname =
     invoke (glGetShaderiv_impl P shader pname) (GlGetShaderiv shader pname)"

definition glGetShaderInfoLog ::
  "'w platform \<Rightarrow> GLuint \<Rightarrow> GLsizei \<Rightarrow> 'w proc \<Rightarrow> string \<times> 'w proc" where
  "glGetShaderInfoLog P shader maxLength =
     invoke (glGetShaderInfoLog_impl P shader maxLength) (GlGetShaderInfoLog shader maxLength)"

definition glCreateProgram :: "'w platform \<Rightarrow> 'w proc \<Rightarrow> GLuint \<times> 'w proc" where
  "glCreateProgram P = invoke (glCreateProgram_impl P) GlCreateProgram"

definition glAttachShader :: "'w platform \<Rightarrow> GLuint \<Rightarrow> GLuint \<Rightarrow> 'w proc \<Rightarrow> 'w proc" where
  "glAttachShader P program shader =
     invoke_void (glAttachShader_impl P program shader) (GlAttachShader program shader)"

definition glLinkProgram :: "'w platform \<Rightarrow> GLuint \<Rightarrow> 'w proc \<Rightarrow> 'w proc" where
  "glLinkProgram P program = invoke_void (glLinkProgram_impl P program) (GlLinkProgram program)"

definition glGetProgramiv ::
  "'w platform \<Rightarrow> GLuint \<Rightarrow> GLenum \<Rightarrow> 'w proc \<Rightarrow> GLint \<times> 'w proc" where
  "glGetProgramiv P program pname =
     invoke (glGetProgramiv_impl P program pname) (GlGetProgramiv program pname)"

definition glGetProgramInfoLog ::
  "'w platform \<Rightarrow> GLuint \<Rightarrow> GLsizei \<Rightarrow> 'w proc \<Rightarrow> string \<times> 'w proc" where
  "glGetProgramInfoLog P program maxLength =
     invoke (glGetProgramInfoLog_impl P program maxLength) (GlGetProgramInfoLog program maxLength)"

definition glDeleteShader :: "'w platform \<Rightarrow> GLuint \<Rightarrow> 'w proc \<Rightarrow> 'w proc" where
  "glDeleteShader P shader = invoke_void (glDeleteShader_impl P shader) (GlDeleteShader shader)"

section \<open>The source loader (Loader.cpp, lines 14 to 23)\<close>

text \<open>
  \<open>std::getline\<close> on the bytes still unread: it fails when nothing is left; otherwise
  it takes the bytes before the first line terminator and discards the terminator, or
  takes everything when there is none.  The stream is opened in text mode, which on a
  POSIX system translates nothing.
\<close>

fun getline :: "string \<Rightarrow> (string \<times> string) option" where
  "getline [] = None"
| "getline (c # cs) =
     Some (takeWhile (\<lambda>x. x \<noteq> CHR 0x0A) (c # cs),
           drop 1 (dropWhile (\<lambda>x. x \<noteq> CHR 0x0A) (c # cs)))"

lemma getline_shorter:
  assumes "getline input = Some (line, rest)"
  shows "length rest < length input"
proof (cases input)
  case Nil
  with assms show ?thesis by simp
next
  case (Cons c cs)
  with assms have r: "rest = drop 1 (dropWhile (\<lambda>x. x \<noteq> CHR 0x0A) (c # cs))"
    by auto
  have "length (dropWhile (\<lambda>x. x \<noteq> CHR 0x0A) (c # cs)) \<le> length (c # cs)"
    by (rule length_dropWhile_le)
  with r Cons show ?thesis by auto
qed

text \<open>\<open>while (std::getline(in, string)) result.emplace_back(string + "\n");\<close>\<close>

function read_lines :: "string \<Rightarrow> string list \<Rightarrow> string list" where
  "read_lines input result =
     (case getline input of
        None \<Rightarrow> result
      | Some (line, rest) \<Rightarrow> read_lines rest (result @ [line @ endl]))"
  by pat_completeness auto
termination
  by (relation "measure (\<lambda>(input, result). length input)") (auto dest: getline_shorter)

definition readFileAsStdListOfStrings ::
  "'w platform \<Rightarrow> string \<Rightarrow> 'w proc \<Rightarrow> string list option \<times> 'w proc" where
  "readFileAsStdListOfStrings P fileName st =
     (case invoke (open_impl P fileName) (\<lambda>r. FileOpen fileName (r \<noteq> None)) st of
        (None, st1) \<Rightarrow> (None, st1)
      | (Some content, st1) \<Rightarrow> (Some (read_lines content []), st1))"

section \<open>Error inspection (Loader.cpp, lines 25 to 62)\<close>

definition errorStrings :: "(GLenum \<times> string) list" where
  "errorStrings =
     [(GL_NO_ERROR, ''No error has been recorded. THIS message is the error itself.''),
      (GL_INVALID_ENUM, ''An unacceptable value is specified for an enumerated argument.''),
      (GL_INVALID_VALUE, ''A numeric argument is out of range.''),
      (GL_INVALID_OPERATION, ''The specified operation is not allowed in the current state.''),
      (GL_INVALID_FRAMEBUFFER_OPERATION, ''The framebuffer object is not complete.''),
      (GL_OUT_OF_MEMORY, ''There is not enough memory left to execute the command.''),
      (GL_STACK_UNDERFLOW, ''An attempt has been made to perform an operation that would cause an internal stack to underflow.''),
      (GL_STACK_OVERFLOW, ''An attempt has been made to perform an operation that would cause an internal stack to overflow.'')]"

definition getErrorMessage :: "'w platform \<Rightarrow> 'w proc \<Rightarrow> string \<times> 'w proc" where
  "getErrorMessage P st =
     (case glGetError P st of
        (error, st1) \<Rightarrow>
          if GL_NO_ERROR = error then ([], st1)
          else
            (''OpenGL error: '' @ show_int (sint error) @ endl @ ''Error string: '' @
               (case map_of errorStrings error of
                  None \<Rightarrow> ''No description available. Incompatible OpenGL version?''
                | Some description \<Rightarrow> description) @ endl,
             st1))"

definition error :: "'w platform \<Rightarrow> 'w proc \<Rightarrow> bool \<times> 'w proc" where
  "error P st =
     (case getErrorMessage P st of
        (message, st1) \<Rightarrow>
          if length message = 0 then (False, st1) else (True, put_cerr message st1))"

text \<open>
  \<open>assert(!error())\<close>.  With \<open>NDEBUG\<close> defined the macro expands to nothing and
  \<open>error()\<close> is not evaluated; otherwise a true \<open>error()\<close> ends the process through
  \<open>abort()\<close>.  Whether the build defines \<open>NDEBUG\<close> is not decided by \<open>Loader.cpp\<close>, so
  it is the parameter \<open>ndebug\<close>.  The text the macro itself prints before aborting is
  implementation defined and is left out of \<open>cerr\<close>.
\<close>

definition assert_not_error :: "bool \<Rightarrow> 'w platform \<Rightarrow> ('w, unit) step" where
  "assert_not_error ndebug P st =
     (if ndebug then (Normal (), st)
      else case error P st of (e, st1) \<Rightarrow> if e then (Abort, st1) else (Normal (), st1))"

section \<open>Compilation (Loader.cpp, lines 64 to 88)\<close>

text \<open>\<open>std::string::c_str\<close> as the driver reads it: the bytes before the first NUL.\<close>

definition c_str :: "string \<Rightarrow> string" where
  "c_str s = takeWhile (\<lambda>c. c \<noteq> CHR 0x00) s"

definition compileShader ::
  "bool \<Rightarrow> 'w platform \<Rightarrow> GLuint \<Rightarrow> string list \<Rightarrow> ('w, bool) step" where
  "compileShader ndebug P shader source =
     (let vsLinesCount = length source; vsSource = map c_str source in
      seq (exec (glShaderSource P shader (of_nat vsLinesCount) vsSource)) (\<lambda>_.
      seq (assert_not_error ndebug P) (\<lambda>_.
      seq (exec (glCompileShader P shader)) (\<lambda>_.
      seq (assert_not_error ndebug P) (\<lambda>_.
      seq (call (glGetShaderiv P shader GL_INFO_LOG_LENGTH)) (\<lambda>logLength.
      seq (if 0 < sint logLength then
             seq (signed_add logLength 1) (\<lambda>_.
             seq (call (glGetShaderInfoLog P shader logLength)) (\<lambda>log.
             seq (exec (put_cout (''Log: '' @ endl))) (\<lambda>_.
             exec (put_cout log))))
           else return_val ()) (\<lambda>_.
      seq (call (glGetShaderiv P shader GL_COMPILE_STATUS)) (\<lambda>compileStatus.
      return_val (compileStatus \<noteq> 0)))))))))"

section \<open>The program (Loader.cpp, lines 90 to 199)\<close>

text \<open>
  \<open>main\<close> is one straight sequence; it is cut here at the comments of the source.
  Lines 92 to 111: windowing system, window, context, extension loader.
\<close>

definition main_init :: "'w platform \<Rightarrow> ('w, window_ptr) step" where
  "main_init P =
     seq (call (glfwInit P)) (\<lambda>ok.
     if ok = 0 then
       seq (exec (put_cerr (''Error: glfw init failed.'' @ endl))) (\<lambda>_.
       exit_main 3)
     else
     seq (call (glfwCreateWindow P 300 200 ''Shader test'')) (\<lambda>window.
     if window = 0 then
       seq (exec (put_cerr (''Error: window is null.'' @ endl))) (\<lambda>_.
       seq (exec (glfwTerminate P)) (\<lambda>_.
       exit_main 1))
     else
     seq (exec (glfwMakeContextCurrent P window)) (\<lambda>_.
     seq (call (glewInit P)) (\<lambda>glewOk.
     if glewOk \<noteq> GLEW_OK then
       seq (exec (put_cerr (''Error: glew not OK.'' @ endl))) (\<lambda>_.
       seq (exec (glfwTerminate P)) (\<lambda>_.
       exit_main 2))
     else return_val window))))"

text \<open>Lines 113 to 116.\<close>

definition main_max_vectors :: "'w platform \<Rightarrow> ('w, unit) step" where
  "main_max_vectors P =
     seq (call (glGetIntegerv P GL_MAX_VERTEX_UNIFORM_VECTORS)) (\<lambda>maxVertexUniformVectors.
     exec (put_cout (''Max vectors: '' @ show_int (sint maxVertexUniformVectors) @ endl)))"

text \<open>Lines 118 to 129: both files are read before either result is looked at.\<close>

definition main_load :: "'w platform \<Rightarrow> ('w, string list \<times> string list) step" where
  "main_load P =
     seq (exec (put_cout (''Loading shader sources...'' @ endl))) (\<lambda>_.
     seq (call (readFileAsStdListOfStrings P ''Shader.vert'')) (\<lambda>vertexSource.
     seq (call (readFileAsStdListOfStrings P ''Shader.frag'')) (\<lambda>fragmentSource.
     case vertexSource of
       None \<Rightarrow>
         seq (exec (put_cerr (''Error: could not load vertex source.'' @ endl))) (\<lambda>_.
         exit_main 4)
     | Some vertexLines \<Rightarrow>
         (case fragmentSource of
            None \<Rightarrow>
              seq (exec (put_cerr (''Error: could not load fragment source.'' @ endl))) (\<lambda>_.
              exit_main 5)
          | Some fragmentLines \<Rightarrow> return_val (vertexLines, fragmentLines)))))"

text \<open>Lines 131 to 143.\<close>

definition main_create :: "bool \<Rightarrow> 'w platform \<Rightarrow> ('w, GLuint \<times> GLuint) step" where
  "main_create ndebug P =
     seq (call (glCreateShader P GL_VERTEX_SHADER)) (\<lambda>vs.
     if vs = 0 then
       seq (exec (put_cerr (''Error: vertex shader is 0.'' @ endl))) (\<lambda>_.
       exit_main 2)
     else
     seq (assert_not_error ndebug P) (\<lambda>_.
     seq (call (glCreateShader P GL_FRAGMENT_SHADER)) (\<lambda>fs.
     if fs = 0 then
       seq (exec (put_cerr (''Error: fragment shader is 0.'' @ endl))) (\<lambda>_.
       exit_main 2)
     else
     seq (assert_not_error ndebug P) (\<lambda>_.
     return_val (vs, fs)))))"

text \<open>Lines 145 to 156.\<close>

definition main_compile ::
  "bool \<Rightarrow> 'w platform \<Rightarrow> GLuint \<Rightarrow> GLuint \<Rightarrow> string list \<Rightarrow> string list \<Rightarrow> ('w, unit) step" where
  "main_compile ndebug P vs fs vertexSource fragmentSource =
     seq (exec (put_cout (''Compiling vertex shader...'' @ endl))) (\<lambda>_.
     seq (compileShader ndebug P vs vertexSource) (\<lambda>compiled.
     if \<not> compiled then
       seq (exec (put_cerr (''Error: could not compile vertex shader.'' @ endl))) (\<lambda>_.
       exit_main 5)
     else
     seq (exec (put_cout (''Compiling fragment shader...'' @ endl))) (\<lambda>_.
     seq (compileShader ndebug P fs fragmentSource) (\<lambda>compiled.
     if \<not> compiled then
       seq (exec (put_cerr (''Error: could not compile fragment shader.'' @ endl))) (\<lambda>_.
       exit_main 5)
     else return_val ()))))"

text \<open>Lines 158 to 188: the link stage.\<close>

definition main_link :: "bool \<Rightarrow> 'w platform \<Rightarrow> GLuint \<Rightarrow> GLuint \<Rightarrow> ('w, GLuint) step" where
  "main_link ndebug P vs fs =
     seq (call (glCreateProgram P)) (\<lambda>program.
     if program = 0 then
       seq (exec (put_cerr (''Error: program is 0.'' @ endl))) (\<lambda>_.
       exit_main 2)
     else
     seq (assert_not_error ndebug P) (\<lambda>_.
     seq (exec (glAttachShader P program vs)) (\<lambda>_.
     seq (assert_not_error ndebug P) (\<lambda>_.
     seq (exec (glAttachShader P program fs)) (\<lambda>_.
     seq (assert_not_error ndebug P) (\<lambda>_.
     seq (exec (glLinkProgram P program)) (\<lambda>_.
     seq (assert_not_error ndebug P) (\<lambda>_.
     seq (call (glGetProgramiv P program GL_INFO_LOG_LENGTH)) (\<lambda>logLength.
     seq (if 0 < sint logLength then
            seq (signed_add logLength 1) (\<lambda>_.
            seq (call (glGetProgramInfoLog P program logLength)) (\<lambda>log.
            seq (exec (put_cout (''Log: '' @ endl))) (\<lambda>_.
            exec (put_cout log))))
          else return_val ()) (\<lambda>_.
     seq (call (glGetProgramiv P program GL_LINK_STATUS)) (\<lambda>linkStatus.
     if linkStatus = 0 then
       seq (exec (put_cerr (''Error: could not link.'' @ endl))) (\<lambda>_.
       exit_main 2)
     else return_val program)))))))))))"

text \<open>Lines 189 to 199: the last check, the releases, \<open>return 0\<close>.\<close>

definition main_shutdown ::
  "bool \<Rightarrow> 'w platform \<Rightarrow> window_ptr \<Rightarrow> GLuint \<Rightarrow> GLuint \<Rightarrow> GLuint \<Rightarrow> ('w, unit) step" where
  "main_shutdown ndebug P window vs fs program =
     seq (assert_not_error ndebug P) (\<lambda>_.
     seq (exec (glDeleteShader P vs)) (\<lambda>_.
     seq (exec (glDeleteShader P fs)) (\<lambda>_.
     seq (exec (put_cout (''Finishing...'' @ endl))) (\<lambda>_.
     seq (exec (glDeleteShader P program)) (\<lambda>_.
     seq (exec (glfwMakeContextCurrent P 0)) (\<lambda>_.
     seq (exec (glfwDestroyWindow P window)) (\<lambda>_.
     seq (exec (glfwTerminate P)) (\<lambda>_.
     exit_main 0))))))))"

definition start :: "'w \<Rightarrow> 'w proc" where
  "start w = \<lparr>world = w, calls = [], cout = [], cerr = []\<rparr>"

definition main :: "bool \<Rightarrow> 'w platform \<Rightarrow> 'w \<Rightarrow> unit outcome \<times> 'w proc" where
  "main ndebug P w =
     seq (main_init P) (\<lambda>window.
     seq (main_max_vectors P) (\<lambda>_.
     seq (main_load P) (\<lambda>(vertexSource, fragmentSource).
     seq (main_create ndebug P) (\<lambda>(vs, fs).
     seq (main_compile ndebug P vs fs vertexSource fragmentSource) (\<lambda>_.
     seq (main_link ndebug P vs fs) (\<lambda>program.
     main_shutdown ndebug P window vs fs program)))))) (start w)"

section \<open>A small driver to run the program on\<close>

text \<open>
  A test double that behaves as the OpenGL specification asks where the program
  depends on it: shader and program objects share one name space, \<open>glGetError\<close>
  returns the recorded error and clears it, and \<open>glDeleteShader\<close> on the name of a
  program object records \<open>GL_INVALID_OPERATION\<close> and deletes nothing.  Both source
  files exist, every stage succeeds, and the info logs are empty.
\<close>

record toy_world =
  err_flag :: GLenum
  next_name :: GLuint
  shader_names :: "GLuint list"
  program_names :: "GLuint list"

definition record_error :: "GLenum \<Rightarrow> toy_world \<Rightarrow> toy_world" where
  "record_error e w = (if err_flag w = GL_NO_ERROR then w\<lparr>err_flag := e\<rparr> else w)"

definition toy_world0 :: toy_world where
  "toy_world0 = \<lparr>err_flag = GL_NO_ERROR, next_name = 1, shader_names = [], program_names = []\<rparr>"

definition toy_platform :: "toy_world platform" where
  "toy_platform =
     \<lparr>open_impl = (\<lambda>p w.
        (if p = ''Shader.vert'' then Some (''void main()'' @ endl @ ''{ gl_Position = vec4(0.0); }'' @ endl)
         else if p = ''Shader.frag'' then Some (''void main() { }'')
         else None, w)),
      glfwInit_impl = (\<lambda>w. (1, w)),
      glfwCreateWindow_impl = (\<lambda>width height title w. (4096, w)),
      glfwMakeContextCurrent_impl = (\<lambda>window w. w),
      glfwDestroyWindow_impl = (\<lambda>window w. w),
      glfwTerminate_impl = (\<lambda>w. w),
      glewInit_impl = (\<lambda>w. (GLEW_OK, w)),
      glGetIntegerv_impl = (\<lambda>pname w. (256, w)),
      glGetError_impl = (\<lambda>w. (err_flag w, w\<lparr>err_flag := GL_NO_ERROR\<rparr>)),
      glCreateShader_impl = (\<lambda>shaderType w.
        (next_name w,
         w\<lparr>next_name := next_name w + 1, shader_names := shader_names w @ [next_name w]\<rparr>)),
      glShaderSource_impl = (\<lambda>shader count strings w. w),
      glCompileShader_impl = (\<lambda>shader w. w),
      glGetShaderiv_impl = (\<lambda>shader pname w. (if pname = GL_COMPILE_STATUS then 1 else 0, w)),
      glGetShaderInfoLog_impl = (\<lambda>shader maxLength w. ([], w)),
      glCreateProgram_impl = (\<lambda>w.
        (next_name w,
         w\<lparr>next_name := next_name w + 1, program_names := program_names w @ [next_name w]\<rparr>)),
      glAttachShader_impl = (\<lambda>program shader w. w),
      glLinkProgram_impl = (\<lambda>program w. w),
      glGetProgramiv_impl = (\<lambda>program pname w. (if pname = GL_LINK_STATUS then 1 else 0, w)),
      glGetProgramInfoLog_impl = (\<lambda>program maxLength w. ([], w)),
      glDeleteShader_impl = (\<lambda>shader w.
        if shader = 0 then w
        else if shader \<in> set (shader_names w)
          then w\<lparr>shader_names := removeAll shader (shader_names w)\<rparr>
        else if shader \<in> set (program_names w) then record_error GL_INVALID_OPERATION w
        else record_error GL_INVALID_VALUE w)\<rparr>"

text \<open>
  Variants of the driver, each changing one answer: compilers and a linker that reject
  their input and leave a log, an extension loader that fails, a window that cannot be
  created, source files that are missing, a \<open>glShaderSource\<close> that records
  \<open>GL_INVALID_VALUE\<close>, a \<open>glCreateShader\<close> that records \<open>GL_INVALID_ENUM\<close> and returns
  no name, and a windowing system that cannot be initialised.
\<close>

definition toy_rejecting :: "toy_world platform" where
  "toy_rejecting =
     toy_platform
       \<lparr>glGetShaderiv_impl := (\<lambda>shader pname w. (if pname = GL_INFO_LOG_LENGTH then 7 else 0, w)),
        glGetShaderInfoLog_impl := (\<lambda>shader maxLength w. (take (nat (sint maxLength) - 1) ''ERROR!'', w))\<rparr>"

definition toy_unlinkable :: "toy_world platform" where
  "toy_unlinkable =
     toy_platform
       \<lparr>glGetProgramiv_impl := (\<lambda>program pname w. (if pname = GL_INFO_LOG_LENGTH then 7 else 0, w)),
        glGetProgramInfoLog_impl := (\<lambda>program maxLength w. (take (nat (sint maxLength) - 1) ''ERROR!'', w))\<rparr>"

definition toy_no_loader :: "toy_world platform" where
  "toy_no_loader = toy_platform\<lparr>glewInit_impl := (\<lambda>w. (1, w))\<rparr>"

definition toy_no_window :: "toy_world platform" where
  "toy_no_window = toy_platform\<lparr>glfwCreateWindow_impl := (\<lambda>width height title w. (0, w))\<rparr>"

definition toy_no_sources :: "toy_world platform" where
  "toy_no_sources = toy_platform\<lparr>open_impl := (\<lambda>p w. (None, w))\<rparr>"

definition toy_bad_source :: "toy_world platform" where
  "toy_bad_source =
     toy_platform\<lparr>glShaderSource_impl := (\<lambda>shader count strings. record_error GL_INVALID_VALUE)\<rparr>"

definition toy_no_shader :: "toy_world platform" where
  "toy_no_shader =
     toy_platform\<lparr>glCreateShader_impl := (\<lambda>shaderType w. (0, record_error GL_INVALID_ENUM w))\<rparr>"

definition toy_no_init :: "toy_world platform" where
  "toy_no_init = toy_platform\<lparr>glfwInit_impl := (\<lambda>w. (0, w))\<rparr>"

section \<open>Reading a run\<close>

text \<open>
  What the claims speak about is read off the recorded calls: the error checks, the
  failure conditions of the exit-code table, and the calls whose success the program
  checks.
\<close>

fun is_check :: "event \<Rightarrow> bool" where
  "is_check (GlGetError _) = True"
| "is_check _ = False"

text \<open>
  The calls that give a resource back.
\<close>

fun is_release :: "event \<Rightarrow> bool" where
  "is_release (GlDeleteShader _) = True"
| "is_release (GlDeleteProgram _) = True"
| "is_release (GlfwDestroyWindow _) = True"
| "is_release (GlfwTerminate) = True"
| "is_release _ = False"

text \<open>
  The failure conditions of the exit-code table (section 6 of the specification), the
  answer of a collaborator that shows each of them, and the code the table gives.
\<close>

datatype failure =
    InitFailed | WindowCreationFailed | LoaderFailed | ObjectCreationFailed | LinkFailed
  | VertexSourceUnreadable | FragmentSourceUnreadable | CompileFailed

fun failure_of :: "event \<Rightarrow> failure option" where
  "failure_of (GlfwInit r) = (if r = 0 then Some InitFailed else None)"
| "failure_of (GlfwCreateWindow _ _ _ window) = (if window = 0 then Some WindowCreationFailed else None)"
| "failure_of (GlewInit r) = (if r \<noteq> GLEW_OK then Some LoaderFailed else None)"
| "failure_of (FileOpen path opened) =
     (if opened then None
      else if path = ''Shader.vert'' then Some VertexSourceUnreadable
      else if path = ''Shader.frag'' then Some FragmentSourceUnreadable
      else None)"
| "failure_of (GlCreateShader _ shader) = (if shader = 0 then Some ObjectCreationFailed else None)"
| "failure_of (GlCreateProgram program) = (if program = 0 then Some ObjectCreationFailed else None)"
| "failure_of (GlGetShaderiv _ pname v) =
     (if pname = GL_COMPILE_STATUS \<and> v = 0 then Some CompileFailed else None)"
| "failure_of (GlGetProgramiv _ pname v) =
     (if pname = GL_LINK_STATUS \<and> v = 0 then Some LinkFailed else None)"
| "failure_of _ = None"

fun failures :: "event list \<Rightarrow> failure list" where
  "failures [] = []"
| "failures (e # t) = (case failure_of e of None \<Rightarrow> failures t | Some f \<Rightarrow> f # failures t)"

fun documented_exit_code :: "failure \<Rightarrow> int" where
  "documented_exit_code WindowCreationFailed = 1"
| "documented_exit_code LoaderFailed = 2"
| "documented_exit_code ObjectCreationFailed = 2"
| "documented_exit_code LinkFailed = 2"
| "documented_exit_code InitFailed = 3"
| "documented_exit_code VertexSourceUnreadable = 4"
| "documented_exit_code FragmentSourceUnreadable = 5"
| "documented_exit_code CompileFailed = 5"

fun exit_code_for :: "failure list \<Rightarrow> int" where
  "exit_code_for [] = 0"
| "exit_code_for (f # _) = documented_exit_code f"

text \<open>
  The calls after which the program asks for the error flag: source submission,
  compilation, attaching, linking, and the creation of an object when it returned a name.
  A list of calls is \<open>audited\<close> when each of these is directly followed by \<open>glGetError\<close>.
\<close>

fun checked :: "event \<Rightarrow> bool" where
  "checked (GlShaderSource _ _ _) = True"
| "checked (GlCompileShader _) = True"
| "checked (GlCreateShader _ shader) = (shader \<noteq> 0)"
| "checked (GlCreateProgram program) = (program \<noteq> 0)"
| "checked (GlAttachShader _ _) = True"
| "checked (GlLinkProgram _) = True"
| "checked _ = False"

fun audited :: "event list \<Rightarrow> bool" where
  "audited [] = True"
| "audited [e] = (\<not> checked e)"
| "audited (e # e' # t) = ((checked e \<longrightarrow> is_check e') \<and> audited (e' # t))"

fun reports_error :: "event \<Rightarrow> bool" where
  "reports_error (GlGetError e) = (e \<noteq> GL_NO_ERROR)"
| "reports_error _ = False"

section \<open>Rules for composing runs\<close>

text \<open>
  The proofs about \<open>main\<close> go stage by stage.  A stage \<open>emits\<close> a relation between how it
  ends and the calls it adds; \<open>run_rule\<close> is the relation every stage keeps: the calls
  added show no failure condition unless the stage returns from \<open>main\<close>, and then the
  code is the documented one; with assertions compiled in, the calls added are audited
  and hold an error report only as the last call before \<open>abort()\<close>; with assertions
  compiled out no stage aborts.  \<open>compile_rule\<close> is the same for \<open>compileShader\<close>, which
  returns its verdict instead of leaving \<open>main\<close>.  \<open>wp\<close> is the weakest precondition of a
  step, \<open>pending\<close> the error the driver would report now, and \<open>checked_state\<close> the state
  after \<open>error()\<close>.
\<close>

definition exit_rule :: "unit outcome \<Rightarrow> event list \<Rightarrow> bool" where
  "exit_rule out new =
     (case out of Exit c \<Rightarrow> c = exit_code_for (failures new) | _ \<Rightarrow> failures new = [])"

definition check_rule :: "unit outcome \<Rightarrow> event list \<Rightarrow> bool" where
  "check_rule out new =
     (audited new \<and>
      (case out of
         Abort \<Rightarrow> new \<noteq> [] \<and> reports_error (last new) \<and> \<not> list_ex reports_error (butlast new)
       | _ \<Rightarrow> \<not> list_ex reports_error new))"

definition run_rule :: "bool \<Rightarrow> unit outcome \<Rightarrow> event list \<Rightarrow> bool" where
  "run_rule nd out new = (exit_rule out new \<and> (if nd then out \<noteq> Abort else check_rule out new))"

definition kind :: "'a outcome \<Rightarrow> unit outcome" where
  "kind out = (case out of Normal _ \<Rightarrow> Normal () | Exit c \<Rightarrow> Exit c | Abort \<Rightarrow> Abort | Undefined \<Rightarrow> Undefined)"

definition emits :: "('w, 'a) step \<Rightarrow> (unit outcome \<Rightarrow> event list \<Rightarrow> bool) \<Rightarrow> bool" where
  "emits m R = (\<forall>st. \<exists>new. calls (snd (m st)) = calls st @ new \<and> R (kind (fst (m st))) new)"

definition compile_rule :: "bool \<Rightarrow> bool outcome \<Rightarrow> event list \<Rightarrow> bool" where
  "compile_rule nd out new =
     (case out of
        Normal b \<Rightarrow>
          failures new = (if b then [] else [CompileFailed]) \<and>
          (if nd then True else audited new \<and> \<not> list_ex reports_error new)
      | Exit c \<Rightarrow> False
      | Abort \<Rightarrow> failures new = [] \<and> \<not> nd \<and> check_rule Abort new
      | Undefined \<Rightarrow> failures new = [] \<and> (if nd then True else check_rule Undefined new))"

text \<open>
  For the shape of a whole run, \<open>main\<close> is read in three parts: the stages up to the
  creation of the two shader objects, the compile stage, and the link stage with
  teardown.  \<open>link_calls\<close> and \<open>release_calls\<close> are the calls of the last part, the error
  checks left out; \<open>compile_event\<close> marks the calls \<open>compileShader\<close> can make.
\<close>

definition main_setup ::
  "bool \<Rightarrow> 'w platform \<Rightarrow> ('w, window_ptr \<times> (string list \<times> string list) \<times> (GLuint \<times> GLuint)) step" where
  "main_setup ndebug P =
     seq (main_init P) (\<lambda>window.
     seq (main_max_vectors P) (\<lambda>_.
     seq (main_load P) (\<lambda>sources.
     seq (main_create ndebug P) (\<lambda>units.
     return_val (window, sources, units)))))"

definition main_tail ::
  "bool \<Rightarrow> 'w platform \<Rightarrow> window_ptr \<Rightarrow> GLuint \<Rightarrow> GLuint \<Rightarrow> ('w, unit) step" where
  "main_tail ndebug P window vs fs =
     seq (main_link ndebug P vs fs) (\<lambda>program. main_shutdown ndebug P window vs fs program)"

definition link_calls :: "GLuint \<Rightarrow> GLuint \<Rightarrow> GLuint \<Rightarrow> GLint \<Rightarrow> string \<Rightarrow> GLint \<Rightarrow> event list" where
  "link_calls vs fs program n l v =
     GlCreateProgram program #
     (if program = 0 then []
      else [GlAttachShader program vs, GlAttachShader program fs, GlLinkProgram program,
            GlGetProgramiv program GL_INFO_LOG_LENGTH n] @
           (if 0 < sint n then [GlGetProgramInfoLog program n l] else []) @
           [GlGetProgramiv program GL_LINK_STATUS v])"

definition release_calls :: "window_ptr \<Rightarrow> GLuint \<Rightarrow> GLuint \<Rightarrow> GLuint \<Rightarrow> event list" where
  "release_calls window vs fs program =
     [GlDeleteShader vs, GlDeleteShader fs, GlDeleteShader program,
      GlfwMakeContextCurrent 0, GlfwDestroyWindow window, GlfwTerminate]"

fun compile_event :: "event \<Rightarrow> bool" where
  "compile_event (GlShaderSource _ _ _) = True"
| "compile_event (GlCompileShader _) = True"
| "compile_event (GlGetShaderiv _ _ _) = True"
| "compile_event (GlGetShaderInfoLog _ _ _) = True"
| "compile_event (GlGetError _) = True"
| "compile_event _ = False"

definition wp :: "('w, 'a) step \<Rightarrow> ('a outcome \<Rightarrow> 'w proc \<Rightarrow> bool) \<Rightarrow> 'w proc \<Rightarrow> bool" where
  "wp m Q st = Q (fst (m st)) (snd (m st))"

definition pending :: "'w platform \<Rightarrow> 'w proc \<Rightarrow> GLenum" where
  "pending P st = fst (glGetError_impl P (world st))"

definition checked_state :: "'w platform \<Rightarrow> 'w proc \<Rightarrow> 'w proc" where
  "checked_state P st = snd (error P st)"

lemmas step_defs =
  seq_def return_val_def exit_main_def call_def exec_def invoke_def invoke_void_def
  put_cout_def put_cerr_def signed_add_def

lemmas api_defs =
  glfwInit_def glfwCreateWindow_def glfwMakeContextCurrent_def glfwDestroyWindow_def
  glfwTerminate_def glewInit_def glGetIntegerv_def glGetError_def glCreateShader_def
  glShaderSource_def glCompileShader_def glGetShaderiv_def glGetShaderInfoLog_def
  glCreateProgram_def glAttachShader_def glLinkProgram_def glGetProgramiv_def
  glGetProgramInfoLog_def glDeleteShader_def

lemmas toy_defs = toy_platform_def toy_world0_def start_def record_error_def

lemmas run_defs =
  main_def main_init_def main_max_vectors_def main_load_def main_create_def main_compile_def
  main_link_def main_shutdown_def compileShader_def c_str_def assert_not_error_def error_def
  getErrorMessage_def readFileAsStdListOfStrings_def read_lines.simps step_defs api_defs toy_defs

lemmas toy_variants =
  toy_rejecting_def toy_unlinkable_def toy_no_loader_def toy_no_window_def toy_no_sources_def
  toy_bad_source_def toy_no_shader_def

section \<open>The documented pipeline\<close>

text \<open>
  The specification describes one linear pipeline (section 2: bootstrap, load, compile
  vertex, compile fragment, link, teardown) that stops at the first failure, and gives
  the exit code of each failure condition (section 6).  The definitions of this section
  write that description out over the recorded calls; they are not built from the
  stages of \<open>main\<close>, and the theorem on exit codes compares \<open>main\<close> with them.

  \<open>answers\<close> holds what the collaborators answer in one run, in the order in which the
  pipeline asks.  \<open>first_failure\<close> is the first failure condition these answers show, in
  pipeline order, and \<open>documented_exit\<close> the code the table gives for it, 0 when there is
  none.  \<open>pipeline_calls\<close> lists the calls of the pipeline for these answers, the error
  checks left out: stage after stage up to and including the first failure, with
  \<open>glfwTerminate\<close> after a window or loader failure, and through teardown when nothing
  fails.  \<open>init_calls\<close>, \<open>create_calls\<close> and \<open>shader_calls\<close> are the calls of bootstrap, of
  the creation of the two shader objects and of one compile-and-report stage;
  \<open>setup_calls\<close> and \<open>setup_failure\<close> are the calls and the first failure of the part of
  the pipeline before compilation.
\<close>

definition init_calls :: "32 word \<Rightarrow> window_ptr \<Rightarrow> GLenum \<Rightarrow> event list" where
  "init_calls r window g =
     GlfwInit r #
     (if r = 0 then []
      else GlfwCreateWindow 300 200 ''Shader test'' window #
        (if window = 0 then [GlfwTerminate]
         else GlfwMakeContextCurrent window # GlewInit g #
           (if g \<noteq> GLEW_OK then [GlfwTerminate] else [])))"

definition create_calls :: "GLuint \<Rightarrow> GLuint \<Rightarrow> event list" where
  "create_calls vs fs =
     GlCreateShader GL_VERTEX_SHADER vs #
     (if vs = 0 then [] else [GlCreateShader GL_FRAGMENT_SHADER fs])"

definition shader_calls :: "GLuint \<Rightarrow> string list \<Rightarrow> GLint \<Rightarrow> string \<Rightarrow> GLint \<Rightarrow> event list" where
  "shader_calls shader source n l v =
     [GlShaderSource shader (of_nat (length source)) (map c_str source),
      GlCompileShader shader,
      GlGetShaderiv shader GL_INFO_LOG_LENGTH n] @
     (if 0 < sint n then [GlGetShaderInfoLog shader n l] else []) @
     [GlGetShaderiv shader GL_COMPILE_STATUS v]"

definition setup_calls ::
  "32 word \<Rightarrow> window_ptr \<Rightarrow> GLenum \<Rightarrow> GLint \<Rightarrow> bool \<Rightarrow> bool \<Rightarrow> GLuint \<Rightarrow> GLuint \<Rightarrow> event list" where
  "setup_calls r window g m vo fo vs fs =
     init_calls r window g @
     (if r = 0 \<or> window = 0 \<or> g \<noteq> GLEW_OK then []
      else [GlGetIntegerv GL_MAX_VERTEX_UNIFORM_VECTORS m,
            FileOpen ''Shader.vert'' vo, FileOpen ''Shader.frag'' fo] @
        (if \<not> vo \<or> \<not> fo then [] else create_calls vs fs))"

definition setup_failure ::
  "32 word \<Rightarrow> window_ptr \<Rightarrow> GLenum \<Rightarrow> bool \<Rightarrow> bool \<Rightarrow> GLuint \<Rightarrow> GLuint \<Rightarrow> failure option" where
  "setup_failure r window g vo fo vs fs =
     (if r = 0 then Some InitFailed
      else if window = 0 then Some WindowCreationFailed
      else if g \<noteq> GLEW_OK then Some LoaderFailed
      else if \<not> vo then Some VertexSourceUnreadable
      else if \<not> fo then Some FragmentSourceUnreadable
      else if vs = 0 \<or> fs = 0 then Some ObjectCreationFailed
      else None)"

record answers =
  init_answer :: "32 word"
  window_answer :: window_ptr
  loader_answer :: GLenum
  max_vectors_answer :: GLint
  vertex_opened :: bool
  fragment_opened :: bool
  vertex_shader :: GLuint
  fragment_shader :: GLuint
  vertex_lines :: "string list"
  vertex_log_length :: GLint
  vertex_log :: string
  vertex_status :: GLint
  fragment_lines :: "string list"
  fragment_log_length :: GLint
  fragment_log :: string
  fragment_status :: GLint
  program_answer :: GLuint
  program_log_length :: GLint
  program_log :: string
  link_status :: GLint

definition first_failure :: "answers \<Rightarrow> failure option" where
  "first_failure a =
     (if init_answer a = 0 then Some InitFailed
      else if window_answer a = 0 then Some WindowCreationFailed
      else if loader_answer a \<noteq> GLEW_OK then Some LoaderFailed
      else if \<not> vertex_opened a then Some VertexSourceUnreadable
      else if \<not> fragment_opened a then Some FragmentSourceUnreadable
      else if vertex_shader a = 0 \<or> fragment_shader a = 0 then Some ObjectCreationFailed
      else if vertex_status a = 0 \<or> fragment_status a = 0 then Some CompileFailed
      else if program_answer a = 0 then Some ObjectCreationFailed
      else if link_status a = 0 then Some LinkFailed
      else None)"

definition documented_exit :: "answers \<Rightarrow> int" where
  "documented_exit a = (case first_failure a of None \<Rightarrow> 0 | Some f \<Rightarrow> documented_exit_code f)"

definition pipeline_calls :: "answers \<Rightarrow> event list" where
  "pipeline_calls a =
     init_calls (init_answer a) (window_answer a) (loader_answer a) @
     (if init_answer a = 0 \<or> window_answer a = 0 \<or> loader_answer a \<noteq> GLEW_OK then [] else
      [GlGetIntegerv GL_MAX_VERTEX_UNIFORM_VECTORS (max_vectors_answer a),
       FileOpen ''Shader.vert'' (vertex_opened a), FileOpen ''Shader.frag'' (fragment_opened a)] @
     (if \<not> vertex_opened a \<or> \<not> fragment_opened a then [] else
      create_calls (vertex_shader a) (fragment_shader a) @
     (if vertex_shader a = 0 \<or> fragment_shader a = 0 then [] else
      shader_calls (vertex_shader a) (vertex_lines a)
        (vertex_log_length a) (vertex_log a) (vertex_status a) @
     (if vertex_status a = 0 then [] else
      shader_calls (fragment_shader a) (fragment_lines a)
        (fragment_log_length a) (fragment_log a) (fragment_status a) @
     (if fragment_status a = 0 then [] else
      link_calls (vertex_shader a) (fragment_shader a) (program_answer a)
        (program_log_length a) (program_log a) (link_status a) @
     (if program_answer a = 0 \<or> link_status a = 0 then [] else
      release_calls (window_answer a) (vertex_shader a) (fragment_shader a)
        (program_answer a)))))))"

section \<open>The source loader: properties\<close>

declare read_lines.simps [simp del]
declare show_nat.simps [simp del]

lemma getline_last_line:
  assumes "c \<noteq> []" and "CHR 0x0A \<notin> set c"
  shows "getline c = Some (c, [])"
proof -
  have a: "\<forall>x\<in>set c. x \<noteq> CHR 0x0A"
    using assms(2) by auto
  have t: "takeWhile (\<lambda>x. x \<noteq> CHR 0x0A) c = c"
    using a by (simp add: takeWhile_eq_all_conv)
  have d: "dropWhile (\<lambda>x. x \<noteq> CHR 0x0A) c = []"
    using a by (simp add: dropWhile_eq_Nil_conv)
  obtain x xs where c: "c = x # xs"
    using assms(1) by (cases c) auto
  have "getline (x # xs) = Some (c, [])"
    using t d unfolding c getline.simps by simp
  then show ?thesis by (simp add: c)
qed

lemma last_not_terminator: "c \<noteq> [] \<Longrightarrow> CHR 0x0A \<notin> set c \<Longrightarrow> last c \<noteq> CHR 0x0A"
  by (metis last_in_set)

lemma getline_line:
  assumes "CHR 0x0A \<notin> set line"
  shows "getline (line @ CHR 0x0A # rest) = Some (line, rest)"
proof -
  have t: "takeWhile (\<lambda>x. x \<noteq> CHR 0x0A) (line @ CHR 0x0A # rest) = line"
    using assms by (subst takeWhile_append2) auto
  have d: "dropWhile (\<lambda>x. x \<noteq> CHR 0x0A) (line @ CHR 0x0A # rest) = CHR 0x0A # rest"
    using assms by (subst dropWhile_append2) auto
  show ?thesis
    using t d by (cases "line @ CHR 0x0A # rest") simp_all
qed

lemma lines_induct [case_names Empty Last Line]:
  assumes empty: "Q []"
    and last: "\<And>c. c \<noteq> [] \<Longrightarrow> CHR 0x0A \<notin> set c \<Longrightarrow> Q c"
    and line: "\<And>line rest. CHR 0x0A \<notin> set line \<Longrightarrow> Q rest \<Longrightarrow> Q (line @ CHR 0x0A # rest)"
  shows "Q c"
proof (induction c rule: length_induct)
  case (1 c)
  show ?case
  proof (cases "CHR 0x0A \<in> set c")
    case True
    then obtain line rest where c: "c = line @ CHR 0x0A # rest" and n: "CHR 0x0A \<notin> set line"
      by (auto dest: split_list_first)
    have "length rest < length c" by (simp add: c)
    with 1 have "Q rest" by blast
    with n c show ?thesis by (simp add: line)
  next
    case False
    then show ?thesis by (cases "c = []") (simp_all add: empty last)
  qed
qed

lemma read_lines_Empty: "read_lines [] acc = acc"
  by (simp add: read_lines.simps)

lemma read_lines_Last:
  "c \<noteq> [] \<Longrightarrow> CHR 0x0A \<notin> set c \<Longrightarrow> read_lines c acc = acc @ [c @ endl]"
  by (simp add: read_lines.simps [of c] getline_last_line read_lines_Empty)

lemma read_lines_Line:
  "CHR 0x0A \<notin> set line \<Longrightarrow>
   read_lines (line @ CHR 0x0A # rest) acc = read_lines rest (acc @ [line @ endl])"
  by (simp add: read_lines.simps [of "line @ CHR 0x0A # rest"] getline_line)

lemma read_lines_acc: "read_lines c acc = acc @ read_lines c []"
proof (induction c arbitrary: acc rule: lines_induct)
  case Empty
  show ?case by (simp add: read_lines_Empty)
next
  case (Last c)
  then show ?case by (simp add: read_lines_Last)
next
  case (Line line rest)
  have "read_lines (line @ CHR 0x0A # rest) acc = (acc @ [line @ endl]) @ read_lines rest []"
    using Line.hyps Line.IH [of "acc @ [line @ endl]"] by (simp add: read_lines_Line)
  moreover have "read_lines (line @ CHR 0x0A # rest) [] = [line @ endl] @ read_lines rest []"
    using Line.hyps Line.IH [of "[line @ endl]"] by (simp add: read_lines_Line)
  ultimately show ?case by simp
qed

lemma read_lines_Line_Nil:
  "CHR 0x0A \<notin> set line \<Longrightarrow>
   read_lines (line @ CHR 0x0A # rest) [] = (line @ endl) # read_lines rest []"
  using read_lines_acc [of rest "[line @ endl]"] by (simp add: read_lines_Line)

lemma concat_read_lines:
  "concat (read_lines c []) = (if c = [] \<or> last c = CHR 0x0A then c else c @ endl)"
  by (induction c rule: lines_induct)
     (auto simp: read_lines_Empty read_lines_Last read_lines_Line_Nil last_not_terminator)

lemma length_read_lines:
  "length (read_lines c []) =
     count_list c (CHR 0x0A) + (if c = [] \<or> last c = CHR 0x0A then 0 else 1)"
  by (induction c rule: lines_induct)
     (auto simp: read_lines_Empty read_lines_Last read_lines_Line_Nil count_list_0_iff last_not_terminator)

lemma elements_read_lines:
  "l \<in> set (read_lines c []) \<Longrightarrow> l \<noteq> [] \<and> last l = CHR 0x0A \<and> CHR 0x0A \<notin> set (butlast l)"
  by (induction c rule: lines_induct)
     (auto simp: read_lines_Empty read_lines_Last read_lines_Line_Nil)

text \<open>
  Claim C5.  For a file that can be opened, the loader returns a present sequence with
  one element per line (one per line terminator, and one more for a last line that has
  none); every element ends in the line terminator and holds no other; a file with no
  content gives the empty sequence.  The concatenation of the elements reproduces the
  content byte for byte up to the ending of the last line: it is the content itself when
  the content is empty or ends in the line terminator, and the content with the missing
  terminator of its last line added otherwise.
\<close>

theorem load_present:
  assumes "fst (open_impl P fileName (world st)) = Some content"
  shows "\<exists>ls. fst (readFileAsStdListOfStrings P fileName st) = Some ls \<and>
           length ls = count_list content (CHR 0x0A) +
             (if content = [] \<or> last content = CHR 0x0A then 0 else 1) \<and>
           (\<forall>l\<in>set ls. l \<noteq> [] \<and> last l = CHR 0x0A \<and> CHR 0x0A \<notin> set (butlast l)) \<and>
           concat ls = (if content = [] \<or> last content = CHR 0x0A then content else content @ endl) \<and>
           (content = [] \<longrightarrow> ls = [])"
proof -
  have r: "fst (readFileAsStdListOfStrings P fileName st) = Some (read_lines content [])"
    using assms
    by (cases "open_impl P fileName (world st)") (simp add: readFileAsStdListOfStrings_def invoke_def)
  show ?thesis
    unfolding r
    using length_read_lines [of content] concat_read_lines [of content]
      elements_read_lines [of _ content]
    by (auto simp: read_lines_Empty)
qed

text \<open>
  The loader on the two sources of the test double: the vertex source, two terminated
  lines, and the fragment source, one line without a terminator.
\<close>

theorem load_present_witness:
  "fst (open_impl toy_platform ''Shader.vert'' (world (start toy_world0))) =
     Some (''void main()'' @ endl @ ''{ gl_Position = vec4(0.0); }'' @ endl) \<and>
   fst (readFileAsStdListOfStrings toy_platform ''Shader.vert'' (start toy_world0)) =
     Some [''void main()'' @ endl, ''{ gl_Position = vec4(0.0); }'' @ endl] \<and>
   concat [''void main()'' @ endl, ''{ gl_Position = vec4(0.0); }'' @ endl] =
     ''void main()'' @ endl @ ''{ gl_Position = vec4(0.0); }'' @ endl \<and>
   fst (open_impl toy_platform ''Shader.frag'' (world (start toy_world0))) =
     Some ''void main() { }'' \<and>
   fst (readFileAsStdListOfStrings toy_platform ''Shader.frag'' (start toy_world0)) =
     Some [''void main() { }'' @ endl] \<and>
   concat [''void main() { }'' @ endl] = ''void main() { }'' @ endl"
proof -
  have h: "fst (open_impl toy_platform ''Shader.vert'' (world (start toy_world0))) =
     Some (''void main()'' @ endl @ ''{ gl_Position = vec4(0.0); }'' @ endl)"
    by (simp add: toy_defs)
  have r: "fst (readFileAsStdListOfStrings toy_platform ''Shader.vert'' (start toy_world0)) =
     Some [''void main()'' @ endl, ''{ gl_Position = vec4(0.0); }'' @ endl]"
    by (simp add: readFileAsStdListOfStrings_def invoke_def toy_defs read_lines.simps)
  have h': "fst (open_impl toy_platform ''Shader.frag'' (world (start toy_world0))) =
     Some ''void main() { }''"
    by (simp add: toy_defs)
  have r': "fst (readFileAsStdListOfStrings toy_platform ''Shader.frag'' (start toy_world0)) =
     Some [''void main() { }'' @ endl]"
    by (simp add: readFileAsStdListOfStrings_def invoke_def toy_defs read_lines.simps)
  from load_present [OF h] load_present [OF h'] h r h' r' show ?thesis by simp
qed

text \<open>
  Claim C6.  For a path that cannot be opened the loader returns the absent result; the
  failed open is its only interaction and nothing is written to either stream.  The
  model has no exceptional outcome for the loader at all.
\<close>

theorem load_absent:
  assumes "fst (open_impl P fileName (world st)) = None"
  shows "fst (readFileAsStdListOfStrings P fileName st) = None \<and>
         calls (snd (readFileAsStdListOfStrings P fileName st)) = calls st @ [FileOpen fileName False] \<and>
         cout (snd (readFileAsStdListOfStrings P fileName st)) = cout st \<and>
         cerr (snd (readFileAsStdListOfStrings P fileName st)) = cerr st"
  using assms
  by (cases "open_impl P fileName (world st)") (simp add: readFileAsStdListOfStrings_def invoke_def)

text \<open>A path the test double does not have.\<close>

theorem load_absent_witness:
  "fst (open_impl toy_platform ''Missing.vert'' (world (start toy_world0))) = None \<and>
   fst (readFileAsStdListOfStrings toy_platform ''Missing.vert'' (start toy_world0)) = None \<and>
   calls (snd (readFileAsStdListOfStrings toy_platform ''Missing.vert'' (start toy_world0))) =
     [FileOpen ''Missing.vert'' False]"
proof -
  have h: "fst (open_impl toy_platform ''Missing.vert'' (world (start toy_world0))) = None"
    by (simp add: toy_defs)
  from load_absent [OF h] h show ?thesis by (simp add: start_def)
qed

section \<open>Error inspection: properties\<close>

text \<open>
  Claim C10.  \<open>error()\<close> returns false exactly when the driver reports \<open>GL_NO_ERROR\<close>, and
  then writes nothing.  For every other code it returns true after appending a non-empty
  message to the error stream; for a code outside the description table the message is
  the code in decimal followed by the fallback description.
\<close>

theorem error_reports:
  assumes "fst (glGetError_impl P (world st)) = e"
  shows "(fst (error P st) \<longleftrightarrow> e \<noteq> GL_NO_ERROR) \<and>
         (e = GL_NO_ERROR \<longrightarrow> cerr (snd (error P st)) = cerr st) \<and>
         (e \<noteq> GL_NO_ERROR \<longrightarrow> (\<exists>message. message \<noteq> [] \<and> cerr (snd (error P st)) = cerr st @ message)) \<and>
         (e \<notin> {GL_NO_ERROR, GL_INVALID_ENUM, GL_INVALID_VALUE, GL_INVALID_OPERATION,
                GL_INVALID_FRAMEBUFFER_OPERATION, GL_OUT_OF_MEMORY, GL_STACK_UNDERFLOW,
                GL_STACK_OVERFLOW} \<longrightarrow>
            cerr (snd (error P st)) =
              cerr st @ ''OpenGL error: '' @ show_int (sint e) @ endl @
              ''Error string: No description available. Incompatible OpenGL version?'' @ endl) \<and>
         cout (snd (error P st)) = cout st"
  using assms
  by (auto simp: error_def getErrorMessage_def glGetError_def invoke_def put_cerr_def
        errorStrings_def split: prod.splits)

text \<open>The code \<open>0x0507\<close> is not in the description table.\<close>

theorem error_reports_witness:
  "fst (glGetError_impl toy_platform (world (start (toy_world0\<lparr>err_flag := 0x0507\<rparr>)))) = 0x0507 \<and>
   fst (error toy_platform (start (toy_world0\<lparr>err_flag := 0x0507\<rparr>))) \<and>
   cerr (snd (error toy_platform (start (toy_world0\<lparr>err_flag := 0x0507\<rparr>)))) =
     ''OpenGL error: 1287'' @ endl @
     ''Error string: No description available. Incompatible OpenGL version?'' @ endl"
proof -
  have h: "fst (glGetError_impl toy_platform (world (start (toy_world0\<lparr>err_flag := 0x0507\<rparr>)))) = 0x0507"
    by (simp add: toy_defs)
  have s: "show_int (sint (0x0507 :: 32 word)) = ''1287''"
    by (simp add: show_int_def show_nat.simps)
  from error_reports [OF h] h s show ?thesis by (simp add: start_def)
qed

section \<open>Weakest preconditions\<close>

lemma wp_seq:
  "wp (seq m f) Q =
     wp m (\<lambda>out. case out of Normal a \<Rightarrow> wp (f a) Q | Exit c \<Rightarrow> Q (Exit c)
                  | Abort \<Rightarrow> Q Abort | Undefined \<Rightarrow> Q Undefined)"
proof (rule ext)
  fix st
  show "wp (seq m f) Q st =
     wp m (\<lambda>out. case out of Normal a \<Rightarrow> wp (f a) Q | Exit c \<Rightarrow> Q (Exit c)
                  | Abort \<Rightarrow> Q Abort | Undefined \<Rightarrow> Q Undefined) st"
    by (cases "m st"; cases "fst (m st)") (auto simp: wp_def seq_def)
qed

lemma wp_return_val: "wp (return_val a) Q st = Q (Normal a) st"
  by (simp add: wp_def return_val_def)

lemma wp_exit_main: "wp (exit_main c) Q st = Q (Exit c) st"
  by (simp add: wp_def exit_main_def)

lemma wp_call: "wp (call f) Q st = Q (Normal (fst (f st))) (snd (f st))"
  by (simp add: wp_def call_def split: prod.splits)

lemma wp_exec: "wp (exec g) Q st = Q (Normal ()) (g st)"
  by (simp add: wp_def exec_def)

lemma wp_if: "wp (if b then m else m') Q st = (if b then wp m Q st else wp m' Q st)"
  by simp

lemma wp_signed_add:
  "wp (signed_add a b) Q st =
     (if - (2 ^ 31) \<le> sint a + sint b \<and> sint a + sint b < 2 ^ 31 then Q (Normal (a + b)) st
      else Q Undefined st)"
  by (simp add: wp_def signed_add_def)

lemma wp_assert_not_error:
  "wp (assert_not_error nd P) Q st =
     (if nd then Q (Normal ()) st
      else if pending P st \<noteq> GL_NO_ERROR then Q Abort (checked_state P st)
      else Q (Normal ()) (checked_state P st))"
  by (auto simp: wp_def assert_not_error_def error_def getErrorMessage_def glGetError_def
        invoke_def pending_def checked_state_def split: prod.splits)

lemma checked_state_simps:
  "world (checked_state P st) = snd (glGetError_impl P (world st))"
  "calls (checked_state P st) = calls st @ [GlGetError (pending P st)]"
  "cout (checked_state P st) = cout st"
  "pending P st = GL_NO_ERROR \<Longrightarrow> cerr (checked_state P st) = cerr st"
  by (auto simp: error_def getErrorMessage_def glGetError_def put_cerr_def
        invoke_def pending_def checked_state_def split: prod.splits)

lemma invoke_simps:
  "fst (invoke f ev st) = fst (f (world st))"
  "world (snd (invoke f ev st)) = snd (f (world st))"
  "calls (snd (invoke f ev st)) = calls st @ [ev (fst (f (world st)))]"
  "cout (snd (invoke f ev st)) = cout st"
  "cerr (snd (invoke f ev st)) = cerr st"
  by (simp_all add: invoke_def split: prod.splits)

lemma invoke_void_simps:
  "world (invoke_void g e st) = g (world st)"
  "calls (invoke_void g e st) = calls st @ [e]"
  "cout (invoke_void g e st) = cout st"
  "cerr (invoke_void g e st) = cerr st"
  by (simp_all add: invoke_void_def)

lemma put_simps:
  "world (put_cout s st) = world st"
  "calls (put_cout s st) = calls st"
  "cout (put_cout s st) = cout st @ s"
  "cerr (put_cout s st) = cerr st"
  "world (put_cerr s st) = world st"
  "calls (put_cerr s st) = calls st"
  "cout (put_cerr s st) = cout st"
  "cerr (put_cerr s st) = cerr st @ s"
  by (simp_all add: put_cout_def put_cerr_def)

lemmas wp_rules =
  wp_seq wp_return_val wp_exit_main wp_call wp_exec wp_if wp_signed_add wp_assert_not_error

lemmas state_simps = checked_state_simps invoke_simps invoke_void_simps put_simps

section \<open>Compilation: properties\<close>

text \<open>
  Claim C1.  Whenever \<open>compileShader\<close> returns, the last call it made is the query of
  \<open>GL_COMPILE_STATUS\<close> on its shader, made after \<open>glCompileShader\<close> on that shader, and
  the value returned is true exactly when the flag the driver answered is not zero.
  This holds with assertions compiled in or out, for every handle and every source.
\<close>

theorem compileShader_result:
  assumes "fst (compileShader nd P shader source st) = Normal b"
  shows "\<exists>v. last (calls (snd (compileShader nd P shader source st))) =
               GlGetShaderiv shader GL_COMPILE_STATUS v \<and>
             GlCompileShader shader \<in>
               set (drop (length (calls st)) (calls (snd (compileShader nd P shader source st)))) \<and>
             (b \<longleftrightarrow> v \<noteq> 0)"
proof -
  have "wp (compileShader nd P shader source)
          (\<lambda>out s. \<forall>b. out = Normal b \<longrightarrow>
             (\<exists>v. last (calls s) = GlGetShaderiv shader GL_COMPILE_STATUS v \<and>
                  GlCompileShader shader \<in> set (drop (length (calls st)) (calls s)) \<and>
                  (b \<longleftrightarrow> v \<noteq> 0))) st"
    by (cases nd) (simp_all add: compileShader_def Let_def wp_rules api_defs state_simps)
  with assms show ?thesis by (simp add: wp_def)
qed

text \<open>
  Both directions on the test double: a compiler that accepts and one that rejects.
\<close>

theorem compileShader_result_witness:
  "fst (compileShader False toy_platform 1 [''void main() { }'' @ endl] (start toy_world0)) = Normal True \<and>
   (\<exists>v. last (calls (snd (compileShader False toy_platform 1 [''void main() { }'' @ endl] (start toy_world0)))) =
           GlGetShaderiv 1 GL_COMPILE_STATUS v \<and>
         GlCompileShader 1 \<in> set (drop (length (calls (start toy_world0)))
           (calls (snd (compileShader False toy_platform 1 [''void main() { }'' @ endl] (start toy_world0))))) \<and>
         (True \<longleftrightarrow> v \<noteq> 0)) \<and>
   fst (compileShader False toy_rejecting 1 [''void main() { '' @ endl] (start toy_world0)) = Normal False \<and>
   (\<exists>v. last (calls (snd (compileShader False toy_rejecting 1 [''void main() { '' @ endl] (start toy_world0)))) =
           GlGetShaderiv 1 GL_COMPILE_STATUS v \<and>
         GlCompileShader 1 \<in> set (drop (length (calls (start toy_world0)))
           (calls (snd (compileShader False toy_rejecting 1 [''void main() { '' @ endl] (start toy_world0))))) \<and>
         (False \<longleftrightarrow> v \<noteq> 0))"
proof -
  have a: "fst (compileShader False toy_platform 1 [''void main() { }'' @ endl] (start toy_world0)) = Normal True"
    by (simp add: run_defs)
  have b: "fst (compileShader False toy_rejecting 1 [''void main() { '' @ endl] (start toy_world0)) = Normal False"
    by (simp add: run_defs toy_variants)
  show ?thesis
    by (intro conjI a b compileShader_result [OF a] compileShader_result [OF b])
qed

text \<open>
  Claim C2.  Whenever \<open>compileShader\<close> returns, with either result, it has asked for
  \<open>GL_INFO_LOG_LENGTH\<close> after compiling; when the answer is positive it has fetched the
  log into a buffer of that full length and written \<open>Log:\<close>, a line end and the whole
  fetched log to \<open>std::cout\<close>; when it is not, nothing is written.  Apart from the error
  checks these are all the calls it makes.
\<close>

theorem compileShader_log:
  assumes "fst (compileShader nd P shader source st) = Normal b"
  shows "\<exists>n l v.
    filter (\<lambda>e. \<not> is_check e)
      (drop (length (calls st)) (calls (snd (compileShader nd P shader source st)))) =
      [GlShaderSource shader (of_nat (length source)) (map c_str source),
       GlCompileShader shader,
       GlGetShaderiv shader GL_INFO_LOG_LENGTH n] @
      (if 0 < sint n then [GlGetShaderInfoLog shader n l] else []) @
      [GlGetShaderiv shader GL_COMPILE_STATUS v] \<and>
    cout (snd (compileShader nd P shader source st)) =
      cout st @ (if 0 < sint n then ''Log: '' @ endl @ l else [])"
proof -
  have "wp (compileShader nd P shader source)
     (\<lambda>out s. \<forall>b. out = Normal b \<longrightarrow> (\<exists>n l v.
        filter (\<lambda>e. \<not> is_check e) (drop (length (calls st)) (calls s)) =
          [GlShaderSource shader (of_nat (length source)) (map c_str source),
           GlCompileShader shader,
           GlGetShaderiv shader GL_INFO_LOG_LENGTH n] @
          (if 0 < sint n then [GlGetShaderInfoLog shader n l] else []) @
          [GlGetShaderiv shader GL_COMPILE_STATUS v] \<and>
        cout s = cout st @ (if 0 < sint n then ''Log: '' @ endl @ l else []))) st"
    by (cases nd) (simp_all add: compileShader_def Let_def wp_rules api_defs state_simps)
  with assms show ?thesis by (simp add: wp_def)
qed

text \<open>
  A rejected source with a log: the log reaches the output although compilation failed.
\<close>

theorem compileShader_log_witness:
  "fst (compileShader False toy_rejecting 1 [''void main() { '' @ endl] (start toy_world0)) = Normal False \<and>
   cout (snd (compileShader False toy_rejecting 1 [''void main() { '' @ endl] (start toy_world0))) =
     ''Log: '' @ endl @ ''ERROR!'' \<and>
   filter (\<lambda>e. \<not> is_check e)
     (calls (snd (compileShader False toy_rejecting 1 [''void main() { '' @ endl] (start toy_world0)))) =
     [GlShaderSource 1 1 [''void main() { '' @ endl], GlCompileShader 1,
      GlGetShaderiv 1 GL_INFO_LOG_LENGTH 7, GlGetShaderInfoLog 1 7 ''ERROR!'',
      GlGetShaderiv 1 GL_COMPILE_STATUS 0]"
proof -
  have b: "fst (compileShader False toy_rejecting 1 [''void main() { '' @ endl] (start toy_world0)) = Normal False"
    by (simp add: run_defs toy_variants)
  from compileShader_log [OF b] b show ?thesis
    by (simp add: run_defs toy_variants)
qed

section \<open>The stages of a run\<close>

lemma kind_simps:
  "kind (Normal a) = Normal ()" "kind (Exit c) = Exit c" "kind Abort = Abort" "kind Undefined = Undefined"
  by (simp_all add: kind_def)

lemma emitsI:
  assumes "\<And>st. wp m (\<lambda>out s. \<exists>new. calls s = calls st @ new \<and> R (kind out) new) st"
  shows "emits m R"
  using assms by (simp add: emits_def wp_def)

lemmas rule_defs = run_rule_def exit_rule_def check_rule_def

lemma main_init_emits: "emits (main_init P) (run_rule nd)"
  by (rule emitsI, cases nd)
     (simp_all add: main_init_def wp_rules api_defs state_simps kind_simps rule_defs)

lemma main_max_vectors_emits: "emits (main_max_vectors P) (run_rule nd)"
  by (rule emitsI, cases nd)
     (simp_all add: main_max_vectors_def wp_rules api_defs state_simps kind_simps rule_defs)

lemma main_create_emits: "emits (main_create nd P) (run_rule nd)"
  by (rule emitsI, cases nd)
     (simp_all add: main_create_def wp_rules api_defs state_simps kind_simps rule_defs)

lemma main_link_emits: "emits (main_link nd P vs fs) (run_rule nd)"
  by (rule emitsI, cases nd)
     (simp_all add: main_link_def wp_rules api_defs state_simps kind_simps rule_defs)

lemma main_shutdown_emits: "emits (main_shutdown nd P window vs fs program) (run_rule nd)"
  by (rule emitsI, cases nd)
     (simp_all add: main_shutdown_def wp_rules api_defs state_simps kind_simps rule_defs)

lemma readFile_simps:
  "fst (readFileAsStdListOfStrings P fileName st) =
     map_option (\<lambda>content. read_lines content []) (fst (open_impl P fileName (world st)))"
  "world (snd (readFileAsStdListOfStrings P fileName st)) = snd (open_impl P fileName (world st))"
  "calls (snd (readFileAsStdListOfStrings P fileName st)) =
     calls st @ [FileOpen fileName (fst (open_impl P fileName (world st)) \<noteq> None)]"
  "cout (snd (readFileAsStdListOfStrings P fileName st)) = cout st"
  "cerr (snd (readFileAsStdListOfStrings P fileName st)) = cerr st"
  by (cases "open_impl P fileName (world st)"; cases "fst (open_impl P fileName (world st))";
      simp add: readFileAsStdListOfStrings_def invoke_def)+

lemma wp_case_option:
  "wp (case x of None \<Rightarrow> m | Some y \<Rightarrow> f y) Q st =
     (case x of None \<Rightarrow> wp m Q st | Some y \<Rightarrow> wp (f y) Q st)"
  by (cases x) simp_all

lemma main_load_emits: "emits (main_load P) (run_rule nd)"
  by (rule emitsI, cases nd)
     (auto simp: main_load_def wp_rules wp_case_option readFile_simps state_simps kind_simps
        rule_defs split: option.splits)

lemma audited_append: "audited xs \<Longrightarrow> audited ys \<Longrightarrow> audited (xs @ ys)"
proof (induction xs rule: audited.induct)
  case 1
  then show ?case by simp
next
  case (2 e)
  then show ?case by (cases ys) simp_all
next
  case (3 e e' t)
  then show ?case by simp
qed

lemma failures_append: "failures (xs @ ys) = failures xs @ failures ys"
  by (induction xs) (simp_all split: option.splits)

lemma run_rule_append:
  assumes "run_rule nd (Normal ()) new1" and "run_rule nd out new2"
  shows "run_rule nd out (new1 @ new2)"
proof -
  have f: "failures (new1 @ new2) = failures new2"
    using assms(1) by (simp add: rule_defs failures_append)
  have e: "exit_rule out (new1 @ new2)"
    using assms(2) f by (cases out) (simp_all add: rule_defs)
  show ?thesis
  proof (cases nd)
    case True
    with assms e show ?thesis by (simp add: run_rule_def)
  next
    case False
    with assms have a1: "audited new1" and c1: "\<not> list_ex reports_error new1"
      and c2: "check_rule out new2"
      by (simp_all add: rule_defs)
    have "audited (new1 @ new2)"
      using a1 c2 by (simp add: check_rule_def audited_append)
    moreover have "(case out of
         Abort \<Rightarrow> new1 @ new2 \<noteq> [] \<and> reports_error (last (new1 @ new2)) \<and>
                  \<not> list_ex reports_error (butlast (new1 @ new2))
       | _ \<Rightarrow> \<not> list_ex reports_error (new1 @ new2))"
      using c1 c2 by (cases out) (auto simp: check_rule_def butlast_append list_ex_iff)
    ultimately show ?thesis
      using False e by (simp add: run_rule_def check_rule_def)
  qed
qed

lemma emits_seq:
  assumes m: "emits m (run_rule nd)" and f: "\<And>a. emits (f a) (run_rule nd)"
  shows "emits (seq m f) (run_rule nd)"
  unfolding emits_def
proof
  fix st
  from m obtain new1 where 1: "calls (snd (m st)) = calls st @ new1"
    and r1: "run_rule nd (kind (fst (m st))) new1"
    unfolding emits_def by blast
  show "\<exists>new. calls (snd (seq m f st)) = calls st @ new \<and> run_rule nd (kind (fst (seq m f st))) new"
  proof (cases "fst (m st)")
    case (Normal a)
    then have s: "seq m f st = f a (snd (m st))"
      by (cases "m st") (simp add: seq_def)
    from f [of a] obtain new2 where 2: "calls (snd (f a (snd (m st)))) = calls (snd (m st)) @ new2"
      and r2: "run_rule nd (kind (fst (f a (snd (m st))))) new2"
      unfolding emits_def by blast
    from r1 Normal have "run_rule nd (Normal ()) new1" by (simp add: kind_simps)
    from run_rule_append [OF this r2] 1 2 s show ?thesis by auto
  next
    case (Exit c)
    then have "seq m f st = (Exit c, snd (m st))"
      by (cases "m st") (simp add: seq_def)
    with 1 r1 Exit show ?thesis by (auto simp: kind_simps)
  next
    case Abort
    then have "seq m f st = (Abort, snd (m st))"
      by (cases "m st") (simp add: seq_def)
    with 1 r1 Abort show ?thesis by (auto simp: kind_simps)
  next
    case Undefined
    then have "seq m f st = (Undefined, snd (m st))"
      by (cases "m st") (simp add: seq_def)
    with 1 r1 Undefined show ?thesis by (auto simp: kind_simps)
  qed
qed

lemma compileShader_emits:
  "\<exists>new. calls (snd (compileShader nd P shader source st)) = calls st @ new \<and>
         compile_rule nd (fst (compileShader nd P shader source st)) new"
proof -
  have "wp (compileShader nd P shader source)
          (\<lambda>out s. \<exists>new. calls s = calls st @ new \<and> compile_rule nd out new) st"
    by (cases nd)
       (simp_all add: compileShader_def Let_def wp_rules api_defs state_simps compile_rule_def
          check_rule_def)
  then show ?thesis by (simp add: wp_def)
qed

lemma wp_compileShader:
  "wp (compileShader nd P shader source) Q st =
     Q (fst (compileShader nd P shader source st)) (snd (compileShader nd P shader source st))"
  by (simp add: wp_def)

lemma main_compile_emits:
  "emits (main_compile nd P vs fs vertexSource fragmentSource) (run_rule nd)"
proof (rule emitsI)
  fix st :: "'a proc"
  let ?st1 = "put_cout (''Compiling vertex shader...'' @ endl) st"
  let ?r1 = "compileShader nd P vs vertexSource ?st1"
  let ?st3 = "put_cout (''Compiling fragment shader...'' @ endl) (snd ?r1)"
  let ?r2 = "compileShader nd P fs fragmentSource ?st3"
  obtain new1 where n1: "calls (snd ?r1) = calls st @ new1"
    and r1: "compile_rule nd (fst ?r1) new1"
    using compileShader_emits [of nd P vs vertexSource ?st1] by (auto simp: state_simps)
  obtain new2 where n2: "calls (snd ?r2) = calls (snd ?r1) @ new2"
    and r2: "compile_rule nd (fst ?r2) new2"
    using compileShader_emits [of nd P fs fragmentSource ?st3] by (auto simp: state_simps)
  show "wp (main_compile nd P vs fs vertexSource fragmentSource)
         (\<lambda>out s. \<exists>new. calls s = calls st @ new \<and> run_rule nd (kind out) new) st"
  proof (cases "fst ?r1")
    case (Normal b1)
    show ?thesis
    proof (cases b1)
      case False
      with Normal n1 r1 show ?thesis
        by (cases nd)
           (simp_all add: main_compile_def wp_rules wp_compileShader state_simps kind_simps
              compile_rule_def rule_defs)
    next
      case True
      note b1 = True
      show ?thesis
      proof (cases "fst ?r2")
        case (Normal b2)
        with b1 \<open>fst ?r1 = Normal b1\<close> n1 n2 r1 r2 show ?thesis
          by (cases nd; cases b2)
             (simp_all add: main_compile_def wp_rules wp_compileShader state_simps kind_simps
                compile_rule_def rule_defs failures_append audited_append)
      next
        case (Exit c)
        with r2 show ?thesis by (simp add: compile_rule_def)
      next
        case Abort
        with b1 \<open>fst ?r1 = Normal b1\<close> n1 n2 r1 r2 show ?thesis
          by (cases nd)
             (auto simp: main_compile_def wp_rules wp_compileShader state_simps kind_simps
                compile_rule_def rule_defs failures_append audited_append butlast_append)
      next
        case Undefined
        with b1 \<open>fst ?r1 = Normal b1\<close> n1 n2 r1 r2 show ?thesis
          by (cases nd)
             (simp_all add: main_compile_def wp_rules wp_compileShader state_simps kind_simps
                compile_rule_def rule_defs failures_append audited_append)
      qed
    qed
  next
    case (Exit c)
    with r1 show ?thesis by (simp add: compile_rule_def)
  next
    case Abort
    with n1 r1 show ?thesis
      by (simp add: main_compile_def wp_rules wp_compileShader state_simps kind_simps
            compile_rule_def rule_defs)
  next
    case Undefined
    with n1 r1 show ?thesis
      by (cases nd)
         (simp_all add: main_compile_def wp_rules wp_compileShader state_simps kind_simps
            compile_rule_def rule_defs)
  qed
qed

lemma main_run_rule:
  "run_rule nd (kind (fst (main nd P w))) (calls (snd (main nd P w)))"
proof -
  have "emits (seq (main_init P) (\<lambda>window.
     seq (main_max_vectors P) (\<lambda>_.
     seq (main_load P) (\<lambda>(vertexSource, fragmentSource).
     seq (main_create nd P) (\<lambda>(vs, fs).
     seq (main_compile nd P vs fs vertexSource fragmentSource) (\<lambda>_.
     seq (main_link nd P vs fs) (\<lambda>program.
     main_shutdown nd P window vs fs program))))))) (run_rule nd)"
    by (intro emits_seq main_init_emits main_max_vectors_emits main_load_emits
          main_create_emits main_compile_emits main_link_emits main_shutdown_emits;
        simp add: split_def)
       (intro emits_seq main_init_emits main_max_vectors_emits main_load_emits
          main_create_emits main_compile_emits main_link_emits main_shutdown_emits;
        simp add: split_def)+
  then show ?thesis
    unfolding emits_def main_def by (auto simp: start_def dest!: spec [of _ "start w"])
qed

section \<open>The shape of a returning run\<close>

lemma main_link_result:
  assumes "fst (main_link nd P vs fs st) \<noteq> Abort" and "fst (main_link nd P vs fs st) \<noteq> Undefined"
  shows "\<exists>new program n l v.
    calls (snd (main_link nd P vs fs st)) = calls st @ new \<and>
    filter (\<lambda>e. \<not> is_check e) new = link_calls vs fs program n l v \<and>
    cout (snd (main_link nd P vs fs st)) =
      cout st @ (if program \<noteq> 0 \<and> 0 < sint n then ''Log: '' @ endl @ l else []) \<and>
    fst (main_link nd P vs fs st) = (if program = 0 \<or> v = 0 then Exit 2 else Normal program) \<and>
    cerr (snd (main_link nd P vs fs st)) =
      cerr st @ (if program = 0 then ''Error: program is 0.'' @ endl
                 else if v = 0 then ''Error: could not link.'' @ endl else [])"
proof -
  have "wp (main_link nd P vs fs)
     (\<lambda>out s. out \<noteq> Abort \<longrightarrow> out \<noteq> Undefined \<longrightarrow> (\<exists>new program n l v.
        calls s = calls st @ new \<and>
        filter (\<lambda>e. \<not> is_check e) new = link_calls vs fs program n l v \<and>
        cout s = cout st @ (if program \<noteq> 0 \<and> 0 < sint n then ''Log: '' @ endl @ l else []) \<and>
        out = (if program = 0 \<or> v = 0 then Exit 2 else Normal program) \<and>
        cerr s = cerr st @ (if program = 0 then ''Error: program is 0.'' @ endl
                            else if v = 0 then ''Error: could not link.'' @ endl else []))) st"
    by (cases nd) (simp_all add: main_link_def wp_rules api_defs state_simps link_calls_def)
  with assms show ?thesis by (simp add: wp_def)
qed

lemma main_shutdown_result:
  assumes "fst (main_shutdown nd P window vs fs program st) = Exit c"
  shows "\<exists>new.
    calls (snd (main_shutdown nd P window vs fs program st)) = calls st @ new \<and>
    filter (\<lambda>e. \<not> is_check e) new = release_calls window vs fs program \<and>
    cout (snd (main_shutdown nd P window vs fs program st)) = cout st @ ''Finishing...'' @ endl \<and>
    cerr (snd (main_shutdown nd P window vs fs program st)) = cerr st \<and>
    c = 0"
proof -
  have "wp (main_shutdown nd P window vs fs program)
     (\<lambda>out s. \<forall>c. out = Exit c \<longrightarrow> (\<exists>new.
        calls s = calls st @ new \<and>
        filter (\<lambda>e. \<not> is_check e) new = release_calls window vs fs program \<and>
        cout s = cout st @ ''Finishing...'' @ endl \<and> cerr s = cerr st \<and> c = 0)) st"
    by (cases nd) (simp_all add: main_shutdown_def wp_rules api_defs state_simps release_calls_def)
  with assms show ?thesis by (simp add: wp_def)
qed

lemma main_tail_result:
  assumes "fst (main_tail nd P window vs fs st) = Exit c"
  shows "\<exists>new program n l v.
    calls (snd (main_tail nd P window vs fs st)) = calls st @ new \<and>
    filter (\<lambda>e. \<not> is_check e) new =
      link_calls vs fs program n l v @
      (if program = 0 \<or> v = 0 then [] else release_calls window vs fs program) \<and>
    cout (snd (main_tail nd P window vs fs st)) =
      cout st @ (if program \<noteq> 0 \<and> 0 < sint n then ''Log: '' @ endl @ l else []) @
      (if program = 0 \<or> v = 0 then [] else ''Finishing...'' @ endl) \<and>
    c = (if program = 0 \<or> v = 0 then 2 else 0) \<and>
    cerr (snd (main_tail nd P window vs fs st)) =
      cerr st @ (if program = 0 then ''Error: program is 0.'' @ endl
                 else if v = 0 then ''Error: could not link.'' @ endl else [])"
proof (cases "fst (main_link nd P vs fs st)")
  case (Normal p)
  then have t: "main_tail nd P window vs fs st =
      main_shutdown nd P window vs fs p (snd (main_link nd P vs fs st))"
    by (cases "main_link nd P vs fs st") (simp add: main_tail_def seq_def)
  from Normal have "fst (main_link nd P vs fs st) \<noteq> Abort" "fst (main_link nd P vs fs st) \<noteq> Undefined"
    by simp_all
  from main_link_result [OF this] obtain new1 program n l v where
    1: "calls (snd (main_link nd P vs fs st)) = calls st @ new1"
    "filter (\<lambda>e. \<not> is_check e) new1 = link_calls vs fs program n l v"
    "cout (snd (main_link nd P vs fs st)) =
      cout st @ (if program \<noteq> 0 \<and> 0 < sint n then ''Log: '' @ endl @ l else [])"
    "fst (main_link nd P vs fs st) = (if program = 0 \<or> v = 0 then Exit 2 else Normal program)"
    "cerr (snd (main_link nd P vs fs st)) =
      cerr st @ (if program = 0 then ''Error: program is 0.'' @ endl
                 else if v = 0 then ''Error: could not link.'' @ endl else [])"
    by blast
  from 1(4) Normal have ok: "program \<noteq> 0" "v \<noteq> 0" "p = program"
    by (auto split: if_splits)
  from assms t have "fst (main_shutdown nd P window vs fs p (snd (main_link nd P vs fs st))) = Exit c"
    by simp
  from main_shutdown_result [OF this] obtain new2 where
    2: "calls (snd (main_shutdown nd P window vs fs p (snd (main_link nd P vs fs st)))) =
          calls (snd (main_link nd P vs fs st)) @ new2"
    "filter (\<lambda>e. \<not> is_check e) new2 = release_calls window vs fs p"
    "cout (snd (main_shutdown nd P window vs fs p (snd (main_link nd P vs fs st)))) =
       cout (snd (main_link nd P vs fs st)) @ ''Finishing...'' @ endl"
    "cerr (snd (main_shutdown nd P window vs fs p (snd (main_link nd P vs fs st)))) =
       cerr (snd (main_link nd P vs fs st))"
    "c = 0"
    by blast
  show ?thesis
    apply (rule exI [of _ "new1 @ new2"], rule exI [of _ program], rule exI [of _ n],
        rule exI [of _ l], rule exI [of _ v])
    using 1 2 ok by (simp add: t)
next
  case (Exit c')
  then have t: "main_tail nd P window vs fs st = (Exit c', snd (main_link nd P vs fs st))"
    by (cases "main_link nd P vs fs st") (simp add: main_tail_def seq_def)
  from Exit have "fst (main_link nd P vs fs st) \<noteq> Abort" "fst (main_link nd P vs fs st) \<noteq> Undefined"
    by simp_all
  from main_link_result [OF this] obtain new1 program n l v where
    1: "calls (snd (main_link nd P vs fs st)) = calls st @ new1"
    "filter (\<lambda>e. \<not> is_check e) new1 = link_calls vs fs program n l v"
    "cout (snd (main_link nd P vs fs st)) =
      cout st @ (if program \<noteq> 0 \<and> 0 < sint n then ''Log: '' @ endl @ l else [])"
    "fst (main_link nd P vs fs st) = (if program = 0 \<or> v = 0 then Exit 2 else Normal program)"
    "cerr (snd (main_link nd P vs fs st)) =
      cerr st @ (if program = 0 then ''Error: program is 0.'' @ endl
                 else if v = 0 then ''Error: could not link.'' @ endl else [])"
    by blast
  from 1(4) Exit have bad: "program = 0 \<or> v = 0" and c': "c' = 2"
    by (auto split: if_splits)
  from assms t have "c = c'" by simp
  show ?thesis
    apply (rule exI [of _ new1], rule exI [of _ program], rule exI [of _ n],
        rule exI [of _ l], rule exI [of _ v])
    using 1 bad c' \<open>c = c'\<close> by (auto simp: t)
next
  case Abort
  then have "main_tail nd P window vs fs st = (Abort, snd (main_link nd P vs fs st))"
    by (cases "main_link nd P vs fs st") (simp add: main_tail_def seq_def)
  with assms show ?thesis by simp
next
  case Undefined
  then have "main_tail nd P window vs fs st = (Undefined, snd (main_link nd P vs fs st))"
    by (cases "main_link nd P vs fs st") (simp add: main_tail_def seq_def)
  with assms show ?thesis by simp
qed

lemma seq_assoc: "seq (seq m f) g = seq m (\<lambda>a. seq (f a) g)"
  by (rule ext) (simp add: seq_def split: prod.splits outcome.splits)

lemma seq_return_val: "seq (return_val a) f = f a"
  by (rule ext) (simp add: seq_def return_val_def)

lemma main_split:
  "main nd P w =
     seq (main_setup nd P) (\<lambda>(window, (vertexSource, fragmentSource), (vs, fs)).
     seq (main_compile nd P vs fs vertexSource fragmentSource) (\<lambda>_.
     main_tail nd P window vs fs)) (start w)"
  by (simp add: main_def main_setup_def main_tail_def seq_assoc seq_return_val split_def)

lemma main_setup_result:
  "\<exists>new. calls (snd (main_setup nd P st)) = calls st @ new \<and>
     (\<forall>program. GlCreateProgram program \<notin> set new) \<and>
     (\<forall>c. fst (main_setup nd P st) = Exit c \<longrightarrow> c \<noteq> 0) \<and>
     (\<forall>window sources vs fs. fst (main_setup nd P st) = Normal (window, sources, (vs, fs)) \<longrightarrow>
        filter is_release new = [] \<and> cerr (snd (main_setup nd P st)) = cerr st \<and>
        GlfwCreateWindow 300 200 ''Shader test'' window \<in> set new \<and>
        GlCreateShader GL_VERTEX_SHADER vs \<in> set new \<and>
        GlCreateShader GL_FRAGMENT_SHADER fs \<in> set new)"
proof -
  have "wp (main_setup nd P)
     (\<lambda>out s. \<exists>new. calls s = calls st @ new \<and>
        (\<forall>program. GlCreateProgram program \<notin> set new) \<and>
        (\<forall>c. out = Exit c \<longrightarrow> c \<noteq> 0) \<and>
        (\<forall>window sources vs fs. out = Normal (window, sources, (vs, fs)) \<longrightarrow>
           filter is_release new = [] \<and> cerr s = cerr st \<and>
           GlfwCreateWindow 300 200 ''Shader test'' window \<in> set new \<and>
           GlCreateShader GL_VERTEX_SHADER vs \<in> set new \<and>
           GlCreateShader GL_FRAGMENT_SHADER fs \<in> set new)) st"
    by (cases nd)
       (auto simp: main_setup_def main_init_def main_max_vectors_def main_load_def
          main_create_def wp_rules wp_case_option api_defs readFile_simps state_simps
          split: option.splits)
  then show ?thesis by (simp add: wp_def)
qed

lemma compile_event_facts:
  "list_all compile_event new \<Longrightarrow> filter is_release new = [] \<and> GlCreateProgram program \<notin> set new"
proof (induction new)
  case Nil
  then show ?case by simp
next
  case (Cons e new)
  then show ?case by (cases e) simp_all
qed

lemma compileShader_calls:
  "\<exists>new. calls (snd (compileShader nd P shader source st)) = calls st @ new \<and>
     list_all compile_event new \<and>
     (\<forall>c. fst (compileShader nd P shader source st) \<noteq> Exit c) \<and>
     (\<forall>b. fst (compileShader nd P shader source st) = Normal b \<longrightarrow>
        GlCompileShader shader \<in> set new \<and>
        cerr (snd (compileShader nd P shader source st)) = cerr st)"
proof -
  have "wp (compileShader nd P shader source)
          (\<lambda>out s. \<exists>new. calls s = calls st @ new \<and> list_all compile_event new \<and>
             (\<forall>c. out \<noteq> Exit c) \<and>
             (\<forall>b. out = Normal b \<longrightarrow> GlCompileShader shader \<in> set new \<and> cerr s = cerr st)) st"
    by (cases nd) (simp_all add: compileShader_def Let_def wp_rules api_defs state_simps)
  then show ?thesis by (simp add: wp_def)
qed

lemma main_compile_result:
  "\<exists>new. calls (snd (main_compile nd P vs fs vertexSource fragmentSource st)) = calls st @ new \<and>
     list_all compile_event new \<and>
     (\<forall>c. fst (main_compile nd P vs fs vertexSource fragmentSource st) = Exit c \<longrightarrow> c \<noteq> 0) \<and>
     (fst (main_compile nd P vs fs vertexSource fragmentSource st) = Normal () \<longrightarrow>
        GlCompileShader vs \<in> set new \<and> GlCompileShader fs \<in> set new \<and>
        cerr (snd (main_compile nd P vs fs vertexSource fragmentSource st)) = cerr st)"
proof -
  let ?st1 = "put_cout (''Compiling vertex shader...'' @ endl) st"
  let ?r1 = "compileShader nd P vs vertexSource ?st1"
  let ?st3 = "put_cout (''Compiling fragment shader...'' @ endl) (snd ?r1)"
  let ?r2 = "compileShader nd P fs fragmentSource ?st3"
  obtain new1 where n1: "calls (snd ?r1) = calls st @ new1" and a1: "list_all compile_event new1"
    and e1: "\<forall>c. fst ?r1 \<noteq> Exit c"
    and r1: "\<forall>b. fst ?r1 = Normal b \<longrightarrow> GlCompileShader vs \<in> set new1 \<and> cerr (snd ?r1) = cerr st"
    using compileShader_calls [of nd P vs vertexSource ?st1] by (auto simp: state_simps)
  obtain new2 where n2: "calls (snd ?r2) = calls (snd ?r1) @ new2" and a2: "list_all compile_event new2"
    and e2: "\<forall>c. fst ?r2 \<noteq> Exit c"
    and r2: "\<forall>b. fst ?r2 = Normal b \<longrightarrow> GlCompileShader fs \<in> set new2 \<and> cerr (snd ?r2) = cerr (snd ?r1)"
    using compileShader_calls [of nd P fs fragmentSource ?st3] by (auto simp: state_simps)
  have "wp (main_compile nd P vs fs vertexSource fragmentSource)
         (\<lambda>out s. \<exists>new. calls s = calls st @ new \<and> list_all compile_event new \<and>
            (\<forall>c. out = Exit c \<longrightarrow> c \<noteq> 0) \<and>
            (out = Normal () \<longrightarrow> GlCompileShader vs \<in> set new \<and> GlCompileShader fs \<in> set new \<and>
               cerr s = cerr st)) st"
  proof (cases "fst ?r1")
    case (Normal b1)
    show ?thesis
    proof (cases b1)
      case False
      with Normal n1 a1 show ?thesis
        by (simp add: main_compile_def wp_rules wp_compileShader state_simps)
    next
      case True
      with Normal n1 n2 a1 a2 r1 r2 e2 show ?thesis
        by (cases "fst ?r2")
           (auto simp: main_compile_def wp_rules wp_compileShader state_simps)
    qed
  next
    case (Exit c)
    with e1 show ?thesis by simp
  next
    case Abort
    with n1 a1 show ?thesis
      by (simp add: main_compile_def wp_rules wp_compileShader state_simps)
  next
    case Undefined
    with n1 a1 show ?thesis
      by (simp add: main_compile_def wp_rules wp_compileShader state_simps)
  qed
  then show ?thesis by (simp add: wp_def)
qed

lemma main_shape:
  assumes "fst (main nd P w) = Exit c"
  shows "(c \<noteq> 0 \<and> (\<forall>program. GlCreateProgram program \<notin> set (calls (snd (main nd P w))))) \<or>
    (\<exists>pre new window vs fs program n l v before.
       calls (snd (main nd P w)) = pre @ new \<and>
       filter is_release pre = [] \<and>
       (\<forall>p. GlCreateProgram p \<notin> set pre) \<and>
       GlfwCreateWindow 300 200 ''Shader test'' window \<in> set pre \<and>
       GlCreateShader GL_VERTEX_SHADER vs \<in> set pre \<and>
       GlCreateShader GL_FRAGMENT_SHADER fs \<in> set pre \<and>
       GlCompileShader vs \<in> set pre \<and> GlCompileShader fs \<in> set pre \<and>
       filter (\<lambda>e. \<not> is_check e) new =
         link_calls vs fs program n l v @
         (if program = 0 \<or> v = 0 then [] else release_calls window vs fs program) \<and>
       cout (snd (main nd P w)) =
         before @ (if program \<noteq> 0 \<and> 0 < sint n then ''Log: '' @ endl @ l else []) @
         (if program = 0 \<or> v = 0 then [] else ''Finishing...'' @ endl) \<and>
       c = (if program = 0 \<or> v = 0 then 2 else 0) \<and>
       cerr (snd (main nd P w)) =
         (if program = 0 then ''Error: program is 0.'' @ endl
          else if v = 0 then ''Error: could not link.'' @ endl else []))"
proof -
  let ?sa = "snd (main_setup nd P (start w))"
  obtain new_a where a: "calls ?sa = new_a"
    and a_prog: "\<forall>program. GlCreateProgram program \<notin> set new_a"
    and a_exit: "\<forall>c. fst (main_setup nd P (start w)) = Exit c \<longrightarrow> c \<noteq> 0"
    and a_norm: "\<forall>window sources vs fs.
        fst (main_setup nd P (start w)) = Normal (window, sources, (vs, fs)) \<longrightarrow>
        filter is_release new_a = [] \<and> cerr ?sa = cerr (start w) \<and>
        GlfwCreateWindow 300 200 ''Shader test'' window \<in> set new_a \<and>
        GlCreateShader GL_VERTEX_SHADER vs \<in> set new_a \<and>
        GlCreateShader GL_FRAGMENT_SHADER fs \<in> set new_a"
    using main_setup_result [of nd P "start w"] by (auto simp: start_def)
  show ?thesis
  proof (cases "fst (main_setup nd P (start w))")
    case (Normal x)
    obtain window vertexSource fragmentSource vs fs
      where x: "x = (window, (vertexSource, fragmentSource), (vs, fs))"
      by (cases x) auto
    let ?mc = "main_compile nd P vs fs vertexSource fragmentSource ?sa"
    from Normal x have m: "main nd P w = seq (main_compile nd P vs fs vertexSource fragmentSource)
        (\<lambda>_. main_tail nd P window vs fs) ?sa"
      by (cases "main_setup nd P (start w)") (simp add: main_split seq_def [of "main_setup nd P"])
    from a_norm Normal x have an: "filter is_release new_a = []" "cerr ?sa = []"
      "GlfwCreateWindow 300 200 ''Shader test'' window \<in> set new_a"
      "GlCreateShader GL_VERTEX_SHADER vs \<in> set new_a"
      "GlCreateShader GL_FRAGMENT_SHADER fs \<in> set new_a"
      by (simp_all add: start_def)
    obtain new_b where b: "calls (snd ?mc) = new_a @ new_b"
      and b_ev: "list_all compile_event new_b"
      and b_exit: "\<forall>c. fst ?mc = Exit c \<longrightarrow> c \<noteq> 0"
      and b_norm: "fst ?mc = Normal () \<longrightarrow>
        GlCompileShader vs \<in> set new_b \<and> GlCompileShader fs \<in> set new_b \<and> cerr (snd ?mc) = cerr ?sa"
      using main_compile_result [of nd P vs fs vertexSource fragmentSource ?sa] a by auto
    from b_ev have b_rel: "filter is_release new_b = []"
      and b_prog: "\<forall>program. GlCreateProgram program \<notin> set new_b"
      using compile_event_facts [of new_b] by auto
    show ?thesis
    proof (cases "fst ?mc")
      case (Normal u)
      then have mt: "main nd P w = main_tail nd P window vs fs (snd ?mc)"
        by (cases ?mc) (simp add: m seq_def [of "main_compile nd P vs fs vertexSource fragmentSource"])
      from b_norm Normal have bn: "GlCompileShader vs \<in> set new_b" "GlCompileShader fs \<in> set new_b"
        "cerr (snd ?mc) = cerr ?sa"
        by simp_all
      from assms mt have "fst (main_tail nd P window vs fs (snd ?mc)) = Exit c"
        by simp
      from main_tail_result [OF this] obtain new_c program n l v where
        t: "calls (snd (main_tail nd P window vs fs (snd ?mc))) = calls (snd ?mc) @ new_c"
        "filter (\<lambda>e. \<not> is_check e) new_c =
          link_calls vs fs program n l v @
          (if program = 0 \<or> v = 0 then [] else release_calls window vs fs program)"
        "cout (snd (main_tail nd P window vs fs (snd ?mc))) =
          cout (snd ?mc) @ (if program \<noteq> 0 \<and> 0 < sint n then ''Log: '' @ endl @ l else []) @
          (if program = 0 \<or> v = 0 then [] else ''Finishing...'' @ endl)"
        "c = (if program = 0 \<or> v = 0 then 2 else 0)"
        "cerr (snd (main_tail nd P window vs fs (snd ?mc))) =
          cerr (snd ?mc) @ (if program = 0 then ''Error: program is 0.'' @ endl
                     else if v = 0 then ''Error: could not link.'' @ endl else [])"
        by blast
      have "\<exists>pre new window vs fs program n l v before.
         calls (snd (main nd P w)) = pre @ new \<and>
         filter is_release pre = [] \<and>
         (\<forall>p. GlCreateProgram p \<notin> set pre) \<and>
         GlfwCreateWindow 300 200 ''Shader test'' window \<in> set pre \<and>
         GlCreateShader GL_VERTEX_SHADER vs \<in> set pre \<and>
         GlCreateShader GL_FRAGMENT_SHADER fs \<in> set pre \<and>
         GlCompileShader vs \<in> set pre \<and> GlCompileShader fs \<in> set pre \<and>
         filter (\<lambda>e. \<not> is_check e) new =
           link_calls vs fs program n l v @
           (if program = 0 \<or> v = 0 then [] else release_calls window vs fs program) \<and>
         cout (snd (main nd P w)) =
           before @ (if program \<noteq> 0 \<and> 0 < sint n then ''Log: '' @ endl @ l else []) @
           (if program = 0 \<or> v = 0 then [] else ''Finishing...'' @ endl) \<and>
         c = (if program = 0 \<or> v = 0 then 2 else 0) \<and>
         cerr (snd (main nd P w)) =
           (if program = 0 then ''Error: program is 0.'' @ endl
            else if v = 0 then ''Error: could not link.'' @ endl else [])"
        apply (rule exI [of _ "new_a @ new_b"], rule exI [of _ new_c], rule exI [of _ window],
            rule exI [of _ vs], rule exI [of _ fs], rule exI [of _ program], rule exI [of _ n],
            rule exI [of _ l], rule exI [of _ v], rule exI [of _ "cout (snd ?mc)"])
        using t an bn b b_rel b_prog a_prog by (simp add: mt)
      then show ?thesis by (rule disjI2)
    next
      case (Exit c')
      then have "main nd P w = (Exit c', snd ?mc)"
        by (cases ?mc) (simp add: m seq_def [of "main_compile nd P vs fs vertexSource fragmentSource"])
      with assms Exit b b_exit b_prog a_prog show ?thesis by auto
    next
      case Abort
      then have "main nd P w = (Abort, snd ?mc)"
        by (cases ?mc) (simp add: m seq_def [of "main_compile nd P vs fs vertexSource fragmentSource"])
      with assms show ?thesis by simp
    next
      case Undefined
      then have "main nd P w = (Undefined, snd ?mc)"
        by (cases ?mc) (simp add: m seq_def [of "main_compile nd P vs fs vertexSource fragmentSource"])
      with assms show ?thesis by simp
    qed
  next
    case (Exit c')
    then have "main nd P w = (Exit c', ?sa)"
      by (cases "main_setup nd P (start w)") (simp add: main_split seq_def [of "main_setup nd P"])
    with assms Exit a a_exit a_prog show ?thesis by auto
  next
    case Abort
    then have "main nd P w = (Abort, ?sa)"
      by (cases "main_setup nd P (start w)") (simp add: main_split seq_def [of "main_setup nd P"])
    with assms show ?thesis by simp
  next
    case Undefined
    then have "main nd P w = (Undefined, ?sa)"
      by (cases "main_setup nd P (start w)") (simp add: main_split seq_def [of "main_setup nd P"])
    with assms show ?thesis by simp
  qed
qed

section \<open>The link stage\<close>

text \<open>
  Claim C3.  In every run in which \<open>main\<close> returns after creating a program object,
  the units attached are the ones created as vertex and as fragment shader and compiled
  before: the program attaches the vertex unit and then the fragment unit, links, asks
  for the length of the program log and, when that is positive, fetches the log and
  writes it to \<open>std::cout\<close>, and last reads \<open>GL_LINK_STATUS\<close>.  The run goes on to teardown
  and returns 0 exactly when the flag is not zero; otherwise it writes
  \<open>Error: could not link.\<close> to \<open>std::cerr\<close> and returns 2 with no further call.
\<close>

theorem main_links_compiled_units:
  assumes "fst (main nd P w) = Exit c"
    and "GlCreateProgram program \<in> set (calls (snd (main nd P w)))"
    and "program \<noteq> 0"
  shows "\<exists>pre new window vs fs n l v before.
     calls (snd (main nd P w)) = pre @ new \<and>
     GlCreateShader GL_VERTEX_SHADER vs \<in> set pre \<and>
     GlCreateShader GL_FRAGMENT_SHADER fs \<in> set pre \<and>
     GlCompileShader vs \<in> set pre \<and> GlCompileShader fs \<in> set pre \<and>
     filter (\<lambda>e. \<not> is_check e) new =
       [GlCreateProgram program, GlAttachShader program vs, GlAttachShader program fs,
        GlLinkProgram program, GlGetProgramiv program GL_INFO_LOG_LENGTH n] @
       (if 0 < sint n then [GlGetProgramInfoLog program n l] else []) @
       [GlGetProgramiv program GL_LINK_STATUS v] @
       (if v = 0 then [] else release_calls window vs fs program) \<and>
     cout (snd (main nd P w)) =
       before @ (if 0 < sint n then ''Log: '' @ endl @ l else []) @
       (if v = 0 then [] else ''Finishing...'' @ endl) \<and>
     (c = 0 \<longleftrightarrow> v \<noteq> 0) \<and>
     (v = 0 \<longrightarrow> c = 2 \<and> cerr (snd (main nd P w)) = ''Error: could not link.'' @ endl)"
proof -
  from main_shape [OF assms(1)] assms(2) obtain pre new window vs fs p n l v before where
    s: "calls (snd (main nd P w)) = pre @ new"
    "\<forall>p. GlCreateProgram p \<notin> set pre"
    "GlCreateShader GL_VERTEX_SHADER vs \<in> set pre"
    "GlCreateShader GL_FRAGMENT_SHADER fs \<in> set pre"
    "GlCompileShader vs \<in> set pre" "GlCompileShader fs \<in> set pre"
    "filter (\<lambda>e. \<not> is_check e) new =
       link_calls vs fs p n l v @ (if p = 0 \<or> v = 0 then [] else release_calls window vs fs p)"
    "cout (snd (main nd P w)) =
       before @ (if p \<noteq> 0 \<and> 0 < sint n then ''Log: '' @ endl @ l else []) @
       (if p = 0 \<or> v = 0 then [] else ''Finishing...'' @ endl)"
    "c = (if p = 0 \<or> v = 0 then 2 else 0)"
    "cerr (snd (main nd P w)) =
       (if p = 0 then ''Error: program is 0.'' @ endl
        else if v = 0 then ''Error: could not link.'' @ endl else [])"
    by blast
  from assms(2) s(1,2) have "GlCreateProgram program \<in> set new"
    by auto
  then have "GlCreateProgram program \<in> set (filter (\<lambda>e. \<not> is_check e) new)"
    by simp
  then have p: "p = program"
    unfolding s(7) by (auto simp: link_calls_def release_calls_def split: if_splits)
  show ?thesis
    apply (rule exI [of _ pre], rule exI [of _ new], rule exI [of _ window], rule exI [of _ vs],
        rule exI [of _ fs], rule exI [of _ n], rule exI [of _ l], rule exI [of _ v],
        rule exI [of _ before])
    using s p assms(3) by (simp add: link_calls_def)
qed

text \<open>
  A linker that rejects and leaves a log, and one that accepts.
\<close>

theorem main_links_compiled_units_witness:
  "fst (main False toy_unlinkable toy_world0) = Exit 2 \<and>
   GlCreateProgram 3 \<in> set (calls (snd (main False toy_unlinkable toy_world0))) \<and>
   filter (\<lambda>e. \<not> is_check e) (drop 23 (calls (snd (main False toy_unlinkable toy_world0)))) =
     [GlCreateProgram 3, GlAttachShader 3 1, GlAttachShader 3 2, GlLinkProgram 3,
      GlGetProgramiv 3 GL_INFO_LOG_LENGTH 7, GlGetProgramInfoLog 3 7 ''ERROR!'',
      GlGetProgramiv 3 GL_LINK_STATUS 0] \<and>
   cerr (snd (main False toy_unlinkable toy_world0)) = ''Error: could not link.'' @ endl \<and>
   fst (main False toy_platform toy_world0) = Exit 0"
proof -
  have a: "fst (main False toy_unlinkable toy_world0) = Exit 2"
    by (simp add: run_defs toy_variants)
  have b: "GlCreateProgram 3 \<in> set (calls (snd (main False toy_unlinkable toy_world0)))"
    by (simp add: run_defs toy_variants)
  have c: "(3 :: GLuint) \<noteq> 0"
    by simp
  from main_links_compiled_units [OF a b c] a b show ?thesis
    by (simp add: run_defs toy_variants)
qed

section \<open>Exit codes\<close>

lemma exit_code_for_zero: "exit_code_for fs = 0 \<longleftrightarrow> fs = []"
proof (cases fs)
  case Nil
  then show ?thesis by simp
next
  case (Cons f rest)
  then show ?thesis by (cases f) simp_all
qed

text \<open>
  The stages one by one: the calls each makes and how it ends, and from them the calls
  and the code of every run in which \<open>main\<close> returns.
\<close>

lemma seq_result:
  "seq m f st =
     (case fst (m st) of Normal a \<Rightarrow> f a (snd (m st)) | Exit c \<Rightarrow> (Exit c, snd (m st))
      | Abort \<Rightarrow> (Abort, snd (m st)) | Undefined \<Rightarrow> (Undefined, snd (m st)))"
  by (cases "m st"; cases "fst (m st)") (auto simp: seq_def)

lemma main_init_shape:
  "\<exists>r window g.
     calls (snd (main_init P st)) = calls st @ init_calls r window g \<and>
     fst (main_init P st) =
       (if r = 0 then Exit 3 else if window = 0 then Exit 1
        else if g \<noteq> GLEW_OK then Exit 2 else Normal window)"
proof -
  have "wp (main_init P) (\<lambda>out s. \<exists>r window g.
     calls s = calls st @ init_calls r window g \<and>
     out = (if r = 0 then Exit 3 else if window = 0 then Exit 1
        else if g \<noteq> GLEW_OK then Exit 2 else Normal window)) st"
    by (simp add: main_init_def wp_rules api_defs state_simps init_calls_def)
  then show ?thesis by (simp add: wp_def)
qed

lemma main_max_vectors_shape:
  "\<exists>m. calls (snd (main_max_vectors P st)) =
          calls st @ [GlGetIntegerv GL_MAX_VERTEX_UNIFORM_VECTORS m] \<and>
        fst (main_max_vectors P st) = Normal ()"
proof -
  have "wp (main_max_vectors P) (\<lambda>out s. \<exists>m.
     calls s = calls st @ [GlGetIntegerv GL_MAX_VERTEX_UNIFORM_VECTORS m] \<and> out = Normal ()) st"
    by (simp add: main_max_vectors_def wp_rules api_defs state_simps)
  then show ?thesis by (simp add: wp_def)
qed

lemma main_load_shape:
  "\<exists>vo fo.
     calls (snd (main_load P st)) =
       calls st @ [FileOpen ''Shader.vert'' vo, FileOpen ''Shader.frag'' fo] \<and>
     (if \<not> vo then fst (main_load P st) = Exit 4
      else if \<not> fo then fst (main_load P st) = Exit 5
      else \<exists>sources. fst (main_load P st) = Normal sources)"
proof -
  have "wp (main_load P) (\<lambda>out s. \<exists>vo fo.
     calls s = calls st @ [FileOpen ''Shader.vert'' vo, FileOpen ''Shader.frag'' fo] \<and>
     (if \<not> vo then out = Exit 4 else if \<not> fo then out = Exit 5
      else \<exists>sources. out = Normal sources)) st"
    by (auto simp: main_load_def wp_rules wp_case_option readFile_simps state_simps
          split: option.split)
  then show ?thesis by (simp add: wp_def)
qed

lemma main_create_shape:
  assumes "fst (main_create nd P st) \<noteq> Abort"
  shows "\<exists>new vs fs.
     calls (snd (main_create nd P st)) = calls st @ new \<and>
     filter (\<lambda>e. \<not> is_check e) new = create_calls vs fs \<and>
     fst (main_create nd P st) = (if vs = 0 \<or> fs = 0 then Exit 2 else Normal (vs, fs))"
proof -
  have "wp (main_create nd P) (\<lambda>out s. out \<noteq> Abort \<longrightarrow> (\<exists>new vs fs.
     calls s = calls st @ new \<and>
     filter (\<lambda>e. \<not> is_check e) new = create_calls vs fs \<and>
     out = (if vs = 0 \<or> fs = 0 then Exit 2 else Normal (vs, fs)))) st"
    by (cases nd) (simp_all add: main_create_def wp_rules api_defs state_simps create_calls_def)
  with assms show ?thesis by (simp add: wp_def)
qed

lemma compileShader_shape:
  assumes "fst (compileShader nd P shader source st) = Normal b"
  shows "\<exists>new n l v.
     calls (snd (compileShader nd P shader source st)) = calls st @ new \<and>
     filter (\<lambda>e. \<not> is_check e) new = shader_calls shader source n l v \<and>
     (b \<longleftrightarrow> v \<noteq> 0)"
proof -
  have "wp (compileShader nd P shader source)
     (\<lambda>out s. \<forall>b. out = Normal b \<longrightarrow> (\<exists>new n l v.
        calls s = calls st @ new \<and>
        filter (\<lambda>e. \<not> is_check e) new = shader_calls shader source n l v \<and>
        (b \<longleftrightarrow> v \<noteq> 0))) st"
    by (cases nd)
       (simp_all add: compileShader_def Let_def wp_rules api_defs state_simps shader_calls_def)
  with assms show ?thesis by (simp add: wp_def)
qed

lemma main_setup_shape:
  assumes "fst (main_setup nd P st) \<noteq> Abort"
  shows "\<exists>new r window g m vo fo vs fs.
     calls (snd (main_setup nd P st)) = calls st @ new \<and>
     filter (\<lambda>e. \<not> is_check e) new = setup_calls r window g m vo fo vs fs \<and>
     (case setup_failure r window g vo fo vs fs of
        Some f \<Rightarrow> fst (main_setup nd P st) = Exit (documented_exit_code f)
      | None \<Rightarrow> (\<exists>sources. fst (main_setup nd P st) = Normal (window, sources, (vs, fs))))"
proof -
  let ?s1 = "snd (main_init P st)"
  let ?s2 = "snd (main_max_vectors P ?s1)"
  let ?s3 = "snd (main_load P ?s2)"
  let ?s4 = "snd (main_create nd P ?s3)"
  obtain r window g where c1: "calls ?s1 = calls st @ init_calls r window g"
    and o1: "fst (main_init P st) =
       (if r = 0 then Exit 3 else if window = 0 then Exit 1
        else if g \<noteq> GLEW_OK then Exit 2 else Normal window)"
    using main_init_shape [of P st] by blast
  obtain m where c2: "calls ?s2 = calls ?s1 @ [GlGetIntegerv GL_MAX_VERTEX_UNIFORM_VECTORS m]"
    and o2: "fst (main_max_vectors P ?s1) = Normal ()"
    using main_max_vectors_shape [of P ?s1] by blast
  obtain vo fo where
    c3: "calls ?s3 = calls ?s2 @ [FileOpen ''Shader.vert'' vo, FileOpen ''Shader.frag'' fo]"
    and o3: "if \<not> vo then fst (main_load P ?s2) = Exit 4
      else if \<not> fo then fst (main_load P ?s2) = Exit 5
      else \<exists>sources. fst (main_load P ?s2) = Normal sources"
    using main_load_shape [of P ?s2] by blast
  show ?thesis
  proof (cases "r = 0 \<or> window = 0 \<or> g \<noteq> GLEW_OK")
    case True
    with o1 have e1: "fst (main_init P st) = Exit (if r = 0 then 3 else if window = 0 then 1 else 2)"
      by auto
    then have ms: "main_setup nd P st = (Exit (if r = 0 then 3 else if window = 0 then 1 else 2), ?s1)"
      by (simp add: main_setup_def seq_result [of "main_init P"])
    show ?thesis
      apply (rule exI [of _ "init_calls r window g"], rule exI [of _ r],
          rule exI [of _ window], rule exI [of _ g])
      using True c1 by (auto simp: ms init_calls_def setup_calls_def setup_failure_def)
  next
    case ok1: False
    show ?thesis
    proof (cases "vo \<and> fo")
      case False
      with o3 have e3: "fst (main_load P ?s2) = Exit (if \<not> vo then 4 else 5)"
        by auto
      with ok1 o1 o2 have ms: "main_setup nd P st = (Exit (if \<not> vo then 4 else 5), ?s3)"
        by (simp add: main_setup_def seq_result [of "main_init P"]
              seq_result [of "main_max_vectors P"] seq_result [of "main_load P"])
      show ?thesis
        apply (rule exI [of _ "init_calls r window g @
            [GlGetIntegerv GL_MAX_VERTEX_UNIFORM_VECTORS m,
             FileOpen ''Shader.vert'' vo, FileOpen ''Shader.frag'' fo]"],
            rule exI [of _ r], rule exI [of _ window], rule exI [of _ g], rule exI [of _ m],
            rule exI [of _ vo], rule exI [of _ fo])
        using False ok1 c1 c2 c3
        by (auto simp: ms init_calls_def setup_calls_def setup_failure_def)
    next
      case ok3: True
      with o3 obtain sources where o3': "fst (main_load P ?s2) = Normal sources"
        by auto
      from ok1 o1 o2 o3' have ms: "main_setup nd P st =
          (case fst (main_create nd P ?s3) of
             Normal units \<Rightarrow> (Normal (window, sources, units), ?s4)
           | Exit c \<Rightarrow> (Exit c, ?s4) | Abort \<Rightarrow> (Abort, ?s4) | Undefined \<Rightarrow> (Undefined, ?s4))"
        by (simp add: main_setup_def seq_result [of "main_init P"]
              seq_result [of "main_max_vectors P"] seq_result [of "main_load P"]
              seq_result [of "main_create nd P"] return_val_def split: outcome.split)
      with assms have "fst (main_create nd P ?s3) \<noteq> Abort"
        by (auto split: outcome.splits)
      from main_create_shape [OF this] obtain new4 vs fs where
        c4: "calls ?s4 = calls ?s3 @ new4"
        and f4: "filter (\<lambda>e. \<not> is_check e) new4 = create_calls vs fs"
        and o4: "fst (main_create nd P ?s3) = (if vs = 0 \<or> fs = 0 then Exit 2 else Normal (vs, fs))"
        by blast
      show ?thesis
        apply (rule exI [of _ "init_calls r window g @
            [GlGetIntegerv GL_MAX_VERTEX_UNIFORM_VECTORS m,
             FileOpen ''Shader.vert'' vo, FileOpen ''Shader.frag'' fo] @ new4"],
            rule exI [of _ r], rule exI [of _ window], rule exI [of _ g], rule exI [of _ m],
            rule exI [of _ vo], rule exI [of _ fo], rule exI [of _ vs], rule exI [of _ fs])
        using ok1 ok3 c1 c2 c3 c4 f4 o4
        by (auto simp: ms init_calls_def setup_calls_def setup_failure_def)
    qed
  qed
qed

lemma main_compile_shape:
  assumes "fst (main_compile nd P vs fs vertexSource fragmentSource st) \<noteq> Abort"
    and "fst (main_compile nd P vs fs vertexSource fragmentSource st) \<noteq> Undefined"
  shows "\<exists>new n1 l1 v1 n2 l2 v2.
     calls (snd (main_compile nd P vs fs vertexSource fragmentSource st)) = calls st @ new \<and>
     filter (\<lambda>e. \<not> is_check e) new =
       shader_calls vs vertexSource n1 l1 v1 @
       (if v1 = 0 then [] else shader_calls fs fragmentSource n2 l2 v2) \<and>
     fst (main_compile nd P vs fs vertexSource fragmentSource st) =
       (if v1 = 0 \<or> v2 = 0 then Exit 5 else Normal ())"
proof -
  let ?st1 = "put_cout (''Compiling vertex shader...'' @ endl) st"
  let ?r1 = "compileShader nd P vs vertexSource ?st1"
  let ?st3 = "put_cout (''Compiling fragment shader...'' @ endl) (snd ?r1)"
  let ?r2 = "compileShader nd P fs fragmentSource ?st3"
  let ?mc = "main_compile nd P vs fs vertexSource fragmentSource st"
  have mc: "?mc =
      (case fst ?r1 of
         Normal b1 \<Rightarrow>
           if \<not> b1 then (Exit 5, put_cerr (''Error: could not compile vertex shader.'' @ endl) (snd ?r1))
           else (case fst ?r2 of
              Normal b2 \<Rightarrow>
                if \<not> b2
                then (Exit 5, put_cerr (''Error: could not compile fragment shader.'' @ endl) (snd ?r2))
                else (Normal (), snd ?r2)
            | Exit c \<Rightarrow> (Exit c, snd ?r2) | Abort \<Rightarrow> (Abort, snd ?r2)
            | Undefined \<Rightarrow> (Undefined, snd ?r2))
       | Exit c \<Rightarrow> (Exit c, snd ?r1) | Abort \<Rightarrow> (Abort, snd ?r1)
       | Undefined \<Rightarrow> (Undefined, snd ?r1))"
    by (simp add: main_compile_def seq_result exec_def exit_main_def return_val_def
          split: outcome.split)
  have e1: "\<forall>c. fst ?r1 \<noteq> Exit c" and e2: "\<forall>c. fst ?r2 \<noteq> Exit c"
    using compileShader_calls [of nd P vs vertexSource ?st1]
      compileShader_calls [of nd P fs fragmentSource ?st3] by auto
  from assms mc e1 obtain b1 where b1: "fst ?r1 = Normal b1"
    by (cases "fst ?r1") auto
  from compileShader_shape [OF b1] obtain new1 n1 l1 v1 where
    c1: "calls (snd ?r1) = calls st @ new1"
    and f1: "filter (\<lambda>e. \<not> is_check e) new1 = shader_calls vs vertexSource n1 l1 v1"
    and v1: "b1 \<longleftrightarrow> v1 \<noteq> 0"
    by (auto simp: state_simps)
  show ?thesis
  proof (cases b1)
    case False
    show ?thesis
      apply (rule exI [of _ new1], rule exI [of _ n1], rule exI [of _ l1], rule exI [of _ v1])
      using False b1 c1 f1 v1 by (simp add: mc state_simps)
  next
    case True
    with assms mc b1 e2 obtain b2 where b2: "fst ?r2 = Normal b2"
      by (cases "fst ?r2") auto
    from compileShader_shape [OF b2] obtain new2 n2 l2 v2 where
      c2: "calls (snd ?r2) = calls (snd ?r1) @ new2"
      and f2: "filter (\<lambda>e. \<not> is_check e) new2 = shader_calls fs fragmentSource n2 l2 v2"
      and v2: "b2 \<longleftrightarrow> v2 \<noteq> 0"
      by (auto simp: state_simps)
    show ?thesis
      apply (rule exI [of _ "new1 @ new2"], rule exI [of _ n1], rule exI [of _ l1],
          rule exI [of _ v1], rule exI [of _ n2], rule exI [of _ l2], rule exI [of _ v2])
      using True b1 b2 c1 c2 f1 f2 v1 v2 by (cases b2) (simp_all add: mc state_simps)
  qed
qed

lemma main_pipeline:
  assumes "fst (main nd P w) = Exit c"
  shows "\<exists>a. filter (\<lambda>e. \<not> is_check e) (calls (snd (main nd P w))) = pipeline_calls a \<and>
             c = documented_exit a"
proof -
  let ?ms = "main_setup nd P (start w)"
  let ?sa = "snd ?ms"
  have m: "main nd P w =
      (case fst ?ms of
         Normal (window, (vertexSource, fragmentSource), (vs, fs)) \<Rightarrow>
           seq (main_compile nd P vs fs vertexSource fragmentSource)
             (\<lambda>_. main_tail nd P window vs fs) ?sa
       | Exit c \<Rightarrow> (Exit c, ?sa) | Abort \<Rightarrow> (Abort, ?sa) | Undefined \<Rightarrow> (Undefined, ?sa))"
    by (simp add: main_split seq_result [of "main_setup nd P"] split: outcome.split)
  with assms have "fst ?ms \<noteq> Abort"
    by auto
  from main_setup_shape [OF this] obtain new_a r window g mx vo fo vs fs where
    ca: "calls ?sa = new_a"
    and fa: "filter (\<lambda>e. \<not> is_check e) new_a = setup_calls r window g mx vo fo vs fs"
    and oa: "case setup_failure r window g vo fo vs fs of
        Some f \<Rightarrow> fst ?ms = Exit (documented_exit_code f)
      | None \<Rightarrow> (\<exists>sources. fst ?ms = Normal (window, sources, (vs, fs)))"
    by (auto simp: start_def)
  let ?a0 = "\<lparr>init_answer = r, window_answer = window, loader_answer = g,
      max_vectors_answer = mx, vertex_opened = vo, fragment_opened = fo,
      vertex_shader = vs, fragment_shader = fs,
      vertex_lines = [], vertex_log_length = 0, vertex_log = [], vertex_status = 0,
      fragment_lines = [], fragment_log_length = 0, fragment_log = [], fragment_status = 0,
      program_answer = 0, program_log_length = 0, program_log = [], link_status = 0\<rparr>"
  show ?thesis
  proof (cases "setup_failure r window g vo fo vs fs")
    case (Some f)
    with oa have ea: "fst ?ms = Exit (documented_exit_code f)"
      by simp
    with m assms have mm: "main nd P w = (Exit (documented_exit_code f), ?sa)"
      and c: "c = documented_exit_code f"
      by simp_all
    show ?thesis
      apply (rule exI [of _ ?a0])
      using Some ca fa c
      by (auto simp: mm pipeline_calls_def documented_exit_def first_failure_def
            setup_calls_def setup_failure_def split: if_splits)
  next
    case None
    with oa obtain vertexSource fragmentSource
      where na: "fst ?ms = Normal (window, (vertexSource, fragmentSource), (vs, fs))"
      by auto
    let ?mc = "main_compile nd P vs fs vertexSource fragmentSource ?sa"
    from m na have m2: "main nd P w =
        (case fst ?mc of
           Normal u \<Rightarrow> main_tail nd P window vs fs (snd ?mc)
         | Exit c \<Rightarrow> (Exit c, snd ?mc) | Abort \<Rightarrow> (Abort, snd ?mc)
         | Undefined \<Rightarrow> (Undefined, snd ?mc))"
      by (simp add: seq_result [of "main_compile nd P vs fs vertexSource fragmentSource"])
    with assms have "fst ?mc \<noteq> Abort" "fst ?mc \<noteq> Undefined"
      by auto
    from main_compile_shape [OF this] obtain new_b n1 l1 v1 n2 l2 v2 where
      cb: "calls (snd ?mc) = new_a @ new_b"
      and fb: "filter (\<lambda>e. \<not> is_check e) new_b =
        shader_calls vs vertexSource n1 l1 v1 @
        (if v1 = 0 then [] else shader_calls fs fragmentSource n2 l2 v2)"
      and ob: "fst ?mc = (if v1 = 0 \<or> v2 = 0 then Exit 5 else Normal ())"
      using ca by auto
    let ?a1 = "?a0\<lparr>vertex_lines := vertexSource, vertex_log_length := n1, vertex_log := l1,
      vertex_status := v1, fragment_lines := fragmentSource, fragment_log_length := n2,
      fragment_log := l2, fragment_status := v2\<rparr>"
    show ?thesis
    proof (cases "v1 = 0 \<or> v2 = 0")
      case True
      with ob m2 assms have mm: "main nd P w = (Exit 5, snd ?mc)" and c: "c = 5"
        by simp_all
      show ?thesis
        apply (rule exI [of _ ?a1])
        using None True cb fa fb c
        by (auto simp: mm pipeline_calls_def documented_exit_def first_failure_def
              setup_calls_def setup_failure_def split: if_splits)
    next
      case False
      with ob m2 have mt: "main nd P w = main_tail nd P window vs fs (snd ?mc)"
        by simp
      with assms have "fst (main_tail nd P window vs fs (snd ?mc)) = Exit c"
        by simp
      from main_tail_result [OF this] obtain new_c program n l v where
        cc: "calls (snd (main_tail nd P window vs fs (snd ?mc))) = calls (snd ?mc) @ new_c"
        and fc: "filter (\<lambda>e. \<not> is_check e) new_c =
          link_calls vs fs program n l v @
          (if program = 0 \<or> v = 0 then [] else release_calls window vs fs program)"
        and c: "c = (if program = 0 \<or> v = 0 then 2 else 0)"
        by blast
      show ?thesis
        apply (rule exI [of _ "?a1\<lparr>program_answer := program, program_log_length := n,
            program_log := l, link_status := v\<rparr>"])
        using None False cb cc fa fb fc c
        by (auto simp: mt pipeline_calls_def documented_exit_def first_failure_def
              setup_calls_def setup_failure_def split: if_splits)
    qed
  qed
qed

lemma documented_exit_zero: "documented_exit a = 0 \<longleftrightarrow> first_failure a = None"
proof (cases "first_failure a")
  case None
  then show ?thesis by (simp add: documented_exit_def)
next
  case (Some f)
  then show ?thesis by (cases f) (simp_all add: documented_exit_def)
qed

lemma pipeline_calls_complete:
  assumes "first_failure a = None"
  shows "pipeline_calls a =
     [GlfwInit (init_answer a),
      GlfwCreateWindow 300 200 ''Shader test'' (window_answer a),
      GlfwMakeContextCurrent (window_answer a),
      GlewInit GLEW_OK,
      GlGetIntegerv GL_MAX_VERTEX_UNIFORM_VECTORS (max_vectors_answer a),
      FileOpen ''Shader.vert'' True, FileOpen ''Shader.frag'' True,
      GlCreateShader GL_VERTEX_SHADER (vertex_shader a),
      GlCreateShader GL_FRAGMENT_SHADER (fragment_shader a)] @
     shader_calls (vertex_shader a) (vertex_lines a)
       (vertex_log_length a) (vertex_log a) (vertex_status a) @
     shader_calls (fragment_shader a) (fragment_lines a)
       (fragment_log_length a) (fragment_log a) (fragment_status a) @
     link_calls (vertex_shader a) (fragment_shader a) (program_answer a)
       (program_log_length a) (program_log a) (link_status a) @
     release_calls (window_answer a) (vertex_shader a) (fragment_shader a) (program_answer a)"
  using assms
  by (simp add: first_failure_def pipeline_calls_def init_calls_def create_calls_def
        split: if_splits)

text \<open>
  Claim C4 as stated gives a code of the table to every way the program ends, and code 5
  to every run in which the fragment source cannot be read.  Both source files are opened
  before either result is looked at (lines 120 to 129), and the vertex source is looked
  at first: with both files missing the fragment source cannot be read and \<open>main\<close>
  returns 4.  And in a build with assertions a run in which \<open>glShaderSource\<close> leaves an
  error pending ends in \<open>abort()\<close>: \<open>main\<close> does not return, and the process ends with no
  code of the table.
\<close>

theorem main_unlisted_exit_counterexample:
  "fst (main False toy_no_sources toy_world0) = Exit 4 \<and>
   filter (\<lambda>e. \<not> is_check e) (calls (snd (main False toy_no_sources toy_world0))) =
     [GlfwInit 1, GlfwCreateWindow 300 200 ''Shader test'' 4096, GlfwMakeContextCurrent 4096,
      GlewInit GLEW_OK, GlGetIntegerv GL_MAX_VERTEX_UNIFORM_VECTORS 256,
      FileOpen ''Shader.vert'' False, FileOpen ''Shader.frag'' False] \<and>
   failure_of (FileOpen ''Shader.frag'' False) = Some FragmentSourceUnreadable \<and>
   documented_exit_code FragmentSourceUnreadable = 5 \<and>
   fst (main False toy_bad_source toy_world0) = Abort"
  by (simp add: run_defs toy_variants)

text \<open>
  Claim C4, as the code has it.  Whenever \<open>main\<close> returns, the calls it made, the error
  checks left out, are exactly the calls of the documented pipeline for the answers the
  collaborators gave: every stage up to and including the first answer that shows a
  failure condition, and nothing after it but the \<open>glfwTerminate\<close> that follows a window
  or loader failure.  The code returned is the one the table gives for that first
  failure: 3 for windowing-system init, 1 for window creation, 2 for the extension
  loader, 4 for the vertex source, 5 for the fragment source when the vertex source was
  read, 2 for the creation of a shader object, 5 for the compilation of either stage, 2
  for the creation of the program object and 2 for the link.  It is 0 exactly when no
  answer shows a failure, and the calls are then those of the whole pipeline through
  teardown (\<open>pipeline_calls_complete\<close>).  Read off the recorded calls alone, the code is
  that of the first failure condition among them, and 0 exactly when there is none.
\<close>

theorem main_exit_code:
  assumes "fst (main nd P w) = Exit c"
  shows "(\<exists>a. filter (\<lambda>e. \<not> is_check e) (calls (snd (main nd P w))) = pipeline_calls a \<and>
              c = documented_exit a) \<and>
         c = exit_code_for (failures (calls (snd (main nd P w)))) \<and>
         (c = 0 \<longleftrightarrow> failures (calls (snd (main nd P w))) = [])"
proof -
  have c: "c = exit_code_for (failures (calls (snd (main nd P w))))"
    using main_run_rule [of nd P w] assms by (simp add: kind_simps rule_defs)
  with exit_code_for_zero [of "failures (calls (snd (main nd P w)))"] main_pipeline [OF assms]
  show ?thesis
    by simp
qed

text \<open>
  One run for each code of the table: everything succeeds; no window; no extension
  loader; no windowing system; both source files missing; a compiler that rejects.
\<close>

theorem main_exit_code_witness:
  "fst (main False toy_platform toy_world0) = Exit 0 \<and>
   (\<exists>a. filter (\<lambda>e. \<not> is_check e) (calls (snd (main False toy_platform toy_world0))) =
          pipeline_calls a \<and> 0 = documented_exit a) \<and>
   filter (\<lambda>e. \<not> is_check e) (calls (snd (main False toy_platform toy_world0))) =
     [GlfwInit 1, GlfwCreateWindow 300 200 ''Shader test'' 4096, GlfwMakeContextCurrent 4096,
      GlewInit GLEW_OK, GlGetIntegerv GL_MAX_VERTEX_UNIFORM_VECTORS 256,
      FileOpen ''Shader.vert'' True, FileOpen ''Shader.frag'' True,
      GlCreateShader GL_VERTEX_SHADER 1, GlCreateShader GL_FRAGMENT_SHADER 2,
      GlShaderSource 1 2 [''void main()'' @ endl, ''{ gl_Position = vec4(0.0); }'' @ endl],
      GlCompileShader 1, GlGetShaderiv 1 GL_INFO_LOG_LENGTH 0, GlGetShaderiv 1 GL_COMPILE_STATUS 1,
      GlShaderSource 2 1 [''void main() { }'' @ endl],
      GlCompileShader 2, GlGetShaderiv 2 GL_INFO_LOG_LENGTH 0, GlGetShaderiv 2 GL_COMPILE_STATUS 1,
      GlCreateProgram 3, GlAttachShader 3 1, GlAttachShader 3 2, GlLinkProgram 3,
      GlGetProgramiv 3 GL_INFO_LOG_LENGTH 0, GlGetProgramiv 3 GL_LINK_STATUS 1,
      GlDeleteShader 1, GlDeleteShader 2, GlDeleteShader 3,
      GlfwMakeContextCurrent 0, GlfwDestroyWindow 4096, GlfwTerminate] \<and>
   fst (main False toy_no_window toy_world0) = Exit 1 \<and>
   (\<exists>a. filter (\<lambda>e. \<not> is_check e) (calls (snd (main False toy_no_window toy_world0))) =
          pipeline_calls a \<and> 1 = documented_exit a) \<and>
   filter (\<lambda>e. \<not> is_check e) (calls (snd (main False toy_no_window toy_world0))) =
     [GlfwInit 1, GlfwCreateWindow 300 200 ''Shader test'' 0, GlfwTerminate] \<and>
   fst (main False toy_no_loader toy_world0) = Exit 2 \<and>
   (\<exists>a. filter (\<lambda>e. \<not> is_check e) (calls (snd (main False toy_no_loader toy_world0))) =
          pipeline_calls a \<and> 2 = documented_exit a) \<and>
   fst (main False toy_no_init toy_world0) = Exit 3 \<and>
   (\<exists>a. filter (\<lambda>e. \<not> is_check e) (calls (snd (main False toy_no_init toy_world0))) =
          pipeline_calls a \<and> 3 = documented_exit a) \<and>
   fst (main False toy_no_sources toy_world0) = Exit 4 \<and>
   (\<exists>a. filter (\<lambda>e. \<not> is_check e) (calls (snd (main False toy_no_sources toy_world0))) =
          pipeline_calls a \<and> 4 = documented_exit a) \<and>
   failures (calls (snd (main False toy_no_sources toy_world0))) =
     [VertexSourceUnreadable, FragmentSourceUnreadable] \<and>
   fst (main False toy_rejecting toy_world0) = Exit 5 \<and>
   (\<exists>a. filter (\<lambda>e. \<not> is_check e) (calls (snd (main False toy_rejecting toy_world0))) =
          pipeline_calls a \<and> 5 = documented_exit a)"
proof -
  have r0: "fst (main False toy_platform toy_world0) = Exit 0"
    by (simp add: run_defs)
  have t0: "filter (\<lambda>e. \<not> is_check e) (calls (snd (main False toy_platform toy_world0))) =
     [GlfwInit 1, GlfwCreateWindow 300 200 ''Shader test'' 4096, GlfwMakeContextCurrent 4096,
      GlewInit GLEW_OK, GlGetIntegerv GL_MAX_VERTEX_UNIFORM_VECTORS 256,
      FileOpen ''Shader.vert'' True, FileOpen ''Shader.frag'' True,
      GlCreateShader GL_VERTEX_SHADER 1, GlCreateShader GL_FRAGMENT_SHADER 2,
      GlShaderSource 1 2 [''void main()'' @ endl, ''{ gl_Position = vec4(0.0); }'' @ endl],
      GlCompileShader 1, GlGetShaderiv 1 GL_INFO_LOG_LENGTH 0, GlGetShaderiv 1 GL_COMPILE_STATUS 1,
      GlShaderSource 2 1 [''void main() { }'' @ endl],
      GlCompileShader 2, GlGetShaderiv 2 GL_INFO_LOG_LENGTH 0, GlGetShaderiv 2 GL_COMPILE_STATUS 1,
      GlCreateProgram 3, GlAttachShader 3 1, GlAttachShader 3 2, GlLinkProgram 3,
      GlGetProgramiv 3 GL_INFO_LOG_LENGTH 0, GlGetProgramiv 3 GL_LINK_STATUS 1,
      GlDeleteShader 1, GlDeleteShader 2, GlDeleteShader 3,
      GlfwMakeContextCurrent 0, GlfwDestroyWindow 4096, GlfwTerminate]"
    by (simp add: run_defs)
  have r1: "fst (main False toy_no_window toy_world0) = Exit 1"
    by (simp add: run_defs toy_variants)
  have t1: "filter (\<lambda>e. \<not> is_check e) (calls (snd (main False toy_no_window toy_world0))) =
     [GlfwInit 1, GlfwCreateWindow 300 200 ''Shader test'' 0, GlfwTerminate]"
    by (simp add: run_defs toy_variants)
  have r2: "fst (main False toy_no_loader toy_world0) = Exit 2"
    by (simp add: run_defs toy_variants)
  have r3: "fst (main False toy_no_init toy_world0) = Exit 3"
    by (simp add: run_defs toy_no_init_def)
  have r4: "fst (main False toy_no_sources toy_world0) = Exit 4"
    by (simp add: run_defs toy_variants)
  have f4: "failures (calls (snd (main False toy_no_sources toy_world0))) =
     [VertexSourceUnreadable, FragmentSourceUnreadable]"
    by (simp add: run_defs toy_variants)
  have r5: "fst (main False toy_rejecting toy_world0) = Exit 5"
    by (simp add: run_defs toy_variants)
  note e0 = main_exit_code [OF r0, THEN conjunct1]
    and e1 = main_exit_code [OF r1, THEN conjunct1]
    and e2 = main_exit_code [OF r2, THEN conjunct1]
    and e3 = main_exit_code [OF r3, THEN conjunct1]
    and e4 = main_exit_code [OF r4, THEN conjunct1]
    and e5 = main_exit_code [OF r5, THEN conjunct1]
  show ?thesis
    by (intro conjI r0 e0 t0 r1 e1 t1 r2 e2 r3 e3 r4 e4 f4 r5 e5)
qed

text \<open>
  Claim C7 as stated asks for a distinct exit code per failure condition.  A failing
  extension loader and a failing link are different conditions and both end in code 2.
\<close>

theorem main_shared_exit_code_counterexample:
  "fst (main False toy_no_loader toy_world0) = Exit 2 \<and>
   failures (calls (snd (main False toy_no_loader toy_world0))) = [LoaderFailed] \<and>
   fst (main False toy_unlinkable toy_world0) = Exit 2 \<and>
   failures (calls (snd (main False toy_unlinkable toy_world0))) = [LinkFailed] \<and>
   LoaderFailed \<noteq> LinkFailed"
  by (simp add: run_defs toy_variants)

text \<open>
  Claim C7, as the code has it.  A run in which a failure condition occurs ends with
  \<open>main\<close> returning the code of the table for the first such condition, which is never
  0.  The codes 1, 3 and 4 each belong to one condition only; 2 and 5 are shared.
\<close>

theorem main_failure_exit_code:
  assumes "failures (calls (snd (main nd P w))) = f # rest"
  shows "fst (main nd P w) = Exit (documented_exit_code f) \<and>
         documented_exit_code f \<noteq> 0 \<and>
         (documented_exit_code f \<in> {1, 3, 4} \<longrightarrow>
            (\<forall>g. documented_exit_code g = documented_exit_code f \<longrightarrow> g = f))"
proof -
  have "fst (main nd P w) = Exit (documented_exit_code f)"
    using main_run_rule [of nd P w] assms
    by (cases "fst (main nd P w)") (simp_all add: kind_simps rule_defs)
  moreover have "documented_exit_code f \<noteq> 0"
    by (cases f) simp_all
  moreover have "documented_exit_code f \<in> {1, 3, 4} \<longrightarrow>
            (\<forall>g. documented_exit_code g = documented_exit_code f \<longrightarrow> g = f)"
  proof (intro impI allI)
    fix g
    assume "documented_exit_code f \<in> {1, 3, 4}" and "documented_exit_code g = documented_exit_code f"
    then show "g = f" by (cases f; cases g) simp_all
  qed
  ultimately show ?thesis by blast
qed

text \<open>
  A window that cannot be created.
\<close>

theorem main_failure_exit_code_witness:
  "failures (calls (snd (main False toy_no_window toy_world0))) = [WindowCreationFailed] \<and>
   fst (main False toy_no_window toy_world0) = Exit 1 \<and>
   documented_exit_code WindowCreationFailed = 1"
proof -
  have a: "failures (calls (snd (main False toy_no_window toy_world0))) = [WindowCreationFailed]"
    by (simp add: run_defs toy_variants)
  from main_failure_exit_code [OF a] a show ?thesis by simp
qed

section \<open>Error checks\<close>

text \<open>
  Claim C8, as the code has it.  In a build with assertions (\<open>NDEBUG\<close> not defined),
  every source submission, compilation, attach and link, and every creation of an object
  that returned a name, is directly followed by a query of the error flag; the run ends
  in \<open>abort()\<close> exactly when one of the queries reports an error, and that query is then
  the last call the program makes.
\<close>

theorem main_checked_calls:
  assumes "\<not> nd"
  shows "audited (calls (snd (main nd P w))) \<and>
         (fst (main nd P w) = Abort \<longleftrightarrow> list_ex reports_error (calls (snd (main nd P w)))) \<and>
         (list_ex reports_error (calls (snd (main nd P w))) \<longrightarrow>
            reports_error (last (calls (snd (main nd P w)))) \<and>
            \<not> list_ex reports_error (butlast (calls (snd (main nd P w)))))"
proof -
  let ?t = "calls (snd (main nd P w))"
  have c: "check_rule (kind (fst (main nd P w))) ?t"
    using main_run_rule [of nd P w] assms by (simp add: run_rule_def)
  show ?thesis
  proof (cases "fst (main nd P w)")
    case Abort
    with c have n: "?t \<noteq> []" and l: "reports_error (last ?t)"
      and b: "\<not> list_ex reports_error (butlast ?t)" and a: "audited ?t"
      by (simp_all add: check_rule_def kind_simps)
    from n l have "list_ex reports_error ?t"
      using last_in_set [OF n] by (auto simp: list_ex_iff)
    with Abort a l b show ?thesis by simp
  next
    case (Normal x)
    with c show ?thesis by (simp add: check_rule_def kind_simps)
  next
    case (Exit x)
    with c show ?thesis by (simp add: check_rule_def kind_simps)
  next
    case Undefined
    with c show ?thesis by (simp add: check_rule_def kind_simps)
  qed
qed

text \<open>
  A \<open>glShaderSource\<close> that records an error, in a build with assertions.
\<close>

theorem main_checked_calls_witness:
  "fst (main False toy_bad_source toy_world0) = Abort \<and>
   last (calls (snd (main False toy_bad_source toy_world0))) = GlGetError GL_INVALID_VALUE \<and>
   audited (calls (snd (main False toy_bad_source toy_world0))) \<and>
   list_ex reports_error (calls (snd (main False toy_bad_source toy_world0)))"
proof -
  have a: "fst (main False toy_bad_source toy_world0) = Abort"
    by (simp add: run_defs toy_variants)
  have l: "last (calls (snd (main False toy_bad_source toy_world0))) = GlGetError GL_INVALID_VALUE"
    by (simp add: run_defs toy_variants)
  from main_checked_calls [of False toy_bad_source toy_world0] a l show ?thesis by simp
qed

text \<open>
  Claim C8 as stated covers every call expected to succeed.  The release calls of
  teardown are followed by no check: on a driver that follows the OpenGL specification
  \<open>glDeleteShader(program)\<close> records \<open>GL_INVALID_OPERATION\<close>, the error is still pending
  when \<open>main\<close> returns 0.  With \<open>NDEBUG\<close> defined no check is made at all: the error
  recorded by \<open>glShaderSource\<close> is still pending when \<open>main\<close> returns 0.  And a
  \<open>glCreateShader\<close> that fails with the name 0 ends \<open>main\<close> with code 2 before any check:
  no assertion fails and the recorded error is never read.
\<close>

theorem main_unchecked_calls_counterexample:
  "fst (main False toy_platform toy_world0) = Exit 0 \<and>
   drop 33 (calls (snd (main False toy_platform toy_world0))) =
     [GlGetError GL_NO_ERROR, GlDeleteShader 1, GlDeleteShader 2, GlDeleteShader 3,
      GlfwMakeContextCurrent 0, GlfwDestroyWindow 4096, GlfwTerminate] \<and>
   pending toy_platform (snd (main False toy_platform toy_world0)) = GL_INVALID_OPERATION \<and>
   fst (main True toy_bad_source toy_world0) = Exit 0 \<and>
   \<not> list_ex is_check (calls (snd (main True toy_bad_source toy_world0))) \<and>
   pending toy_bad_source (snd (main True toy_bad_source toy_world0)) = GL_INVALID_VALUE \<and>
   fst (main False toy_no_shader toy_world0) = Exit 2 \<and>
   \<not> list_ex is_check (calls (snd (main False toy_no_shader toy_world0))) \<and>
   pending toy_no_shader (snd (main False toy_no_shader toy_world0)) = GL_INVALID_ENUM"
  by (simp add: run_defs toy_variants pending_def)

section \<open>Teardown\<close>

text \<open>
  What every run that returns 0 releases, and how: the two shader objects and the
  program object all go to \<open>glDeleteShader\<close>.
\<close>

lemma release_is_no_check: "filter is_release (filter (\<lambda>e. \<not> is_check e) t) = filter is_release t"
proof (induction t)
  case Nil
  then show ?case by simp
next
  case (Cons e t)
  then show ?case by (cases e) simp_all
qed

lemma main_teardown:
  assumes "fst (main nd P w) = Exit 0"
  shows "\<exists>window vs fs program.
     GlfwCreateWindow 300 200 ''Shader test'' window \<in> set (calls (snd (main nd P w))) \<and>
     GlCreateShader GL_VERTEX_SHADER vs \<in> set (calls (snd (main nd P w))) \<and>
     GlCreateShader GL_FRAGMENT_SHADER fs \<in> set (calls (snd (main nd P w))) \<and>
     GlCreateProgram program \<in> set (calls (snd (main nd P w))) \<and>
     filter is_release (calls (snd (main nd P w))) =
       [GlDeleteShader vs, GlDeleteShader fs, GlDeleteShader program,
        GlfwDestroyWindow window, GlfwTerminate]"
proof -
  from main_shape [OF assms] obtain pre new window vs fs p n l v where
    s: "calls (snd (main nd P w)) = pre @ new"
    "filter is_release pre = []"
    "GlfwCreateWindow 300 200 ''Shader test'' window \<in> set pre"
    "GlCreateShader GL_VERTEX_SHADER vs \<in> set pre"
    "GlCreateShader GL_FRAGMENT_SHADER fs \<in> set pre"
    "filter (\<lambda>e. \<not> is_check e) new =
       link_calls vs fs p n l v @ (if p = 0 \<or> v = 0 then [] else release_calls window vs fs p)"
    "(0 :: int) = (if p = 0 \<or> v = 0 then 2 else 0)"
    by blast
  from s(7) have ok: "p \<noteq> 0" "v \<noteq> 0"
    by (auto split: if_splits)
  have "filter is_release new = filter is_release (filter (\<lambda>e. \<not> is_check e) new)"
    by (simp only: release_is_no_check)
  also have "\<dots> = [GlDeleteShader vs, GlDeleteShader fs, GlDeleteShader p,
        GlfwDestroyWindow window, GlfwTerminate]"
    unfolding s(6) using ok by (simp add: link_calls_def release_calls_def)
  finally have r: "filter is_release new = [GlDeleteShader vs, GlDeleteShader fs, GlDeleteShader p,
        GlfwDestroyWindow window, GlfwTerminate]" .
  have "GlCreateProgram p \<in> set (filter (\<lambda>e. \<not> is_check e) new)"
    unfolding s(6) by (simp add: link_calls_def)
  then have c: "GlCreateProgram p \<in> set new"
    by simp
  show ?thesis
    apply (rule exI [of _ window], rule exI [of _ vs], rule exI [of _ fs], rule exI [of _ p])
    using s r c by simp
qed

text \<open>
  Claim C9 does not hold of the code.  On the run where everything succeeds the program
  object, name 3, is handed to \<open>glDeleteShader\<close> (line 195), the release operation of
  shader objects; \<open>glDeleteProgram\<close> is never called, and on a driver that follows the
  OpenGL specification the program object still exists when \<open>main\<close> returns.
\<close>

theorem main_releases_program_with_glDeleteShader:
  "fst (main False toy_platform toy_world0) = Exit 0 \<and>
   GlCreateProgram 3 \<in> set (calls (snd (main False toy_platform toy_world0))) \<and>
   filter is_release (calls (snd (main False toy_platform toy_world0))) =
     [GlDeleteShader 1, GlDeleteShader 2, GlDeleteShader 3, GlfwDestroyWindow 4096, GlfwTerminate] \<and>
   shader_names (world (snd (main False toy_platform toy_world0))) = [] \<and>
   program_names (world (snd (main False toy_platform toy_world0))) = [3]"
  by (simp add: run_defs)

end
